theory Spec2Isabelle
  imports Complex_Main
begin

section \<open>Python values shared by the services\<close>

text \<open>
  Exceptions are values. Every handler of the services is \<^verbatim>\<open>except Exception\<close> (or the
  narrower \<^verbatim>\<open>except json.JSONDecodeError\<close>), so the model carries the exceptions derived from
  \<^verbatim>\<open>Exception\<close>; interpreter exits and task cancellation are outside it.
  A Python call that may raise returns \<open>py_exception + 'a\<close>, with \<open>Inl\<close> the raised exception.
\<close>

datatype py_exception =
    JSONDecodeError string
  | TypeError string
  | AttributeError string
  | ValueError string
  | HTTPException int string
  | OtherException string

text \<open>
  A \<^verbatim>\<open>str\<close> is a \<open>string\<close> whose characters are the code points U+0000 to U+00FF.
  \<^verbatim>\<open>str.lower()\<close> on that range maps A-Z and the capital letters U+00C0-U+00DE
  (without the multiplication sign U+00D7) to the code point 32 above.
\<close>

definition lower_char :: "char \<Rightarrow> char" where
  "lower_char c =
     (let n = (of_char c :: nat)
      in if (65 \<le> n \<and> n \<le> 90) \<or> (192 \<le> n \<and> n \<le> 222 \<and> n \<noteq> 215)
         then char_of (n + 32) else c)"

definition lower :: "string \<Rightarrow> string" where
  "lower s = map lower_char s"

text \<open>\<^verbatim>\<open>s.startswith(kw)\<close> and the substring test \<^verbatim>\<open>kw in s\<close>.\<close>

fun startswith :: "string \<Rightarrow> string \<Rightarrow> bool" where
  "startswith s [] = True"
| "startswith [] (k # ks) = False"
| "startswith (c # cs) (k # ks) = (c = k \<and> startswith cs ks)"

fun str_in :: "string \<Rightarrow> string \<Rightarrow> bool" where
  "str_in kw [] = (kw = [])"
| "str_in kw (c # cs) = (startswith (c # cs) kw \<or> str_in kw cs)"

text \<open>\<^verbatim>\<open>any(keyword in query_lower for keyword in keywords)\<close>\<close>

definition any_keyword :: "string list \<Rightarrow> string \<Rightarrow> bool" where
  "any_keyword keywords query_lower = list_ex (\<lambda>keyword. str_in keyword query_lower) keywords"


section \<open>The router: \<^verbatim>\<open>OrchestratorAgent.route_query\<close> (orchestrator.py)\<close>

definition general_keywords :: "string list" where
  "general_keywords =
     [''weather'', ''temperature'', ''forecast'', ''rain'', ''sunny'',
      ''calculate'', ''math'', ''time'', ''timezone'', ''what time'',
      ''hello'', ''hi'', ''how are you'', ''thank'']"

definition medical_keywords :: "string list" where
  "medical_keywords =
     [''sick'', ''ill'', ''pain'', ''symptom'', ''disease'', ''health'',
      ''medical'', ''doctor'', ''medicine'', ''treatment'', ''diagnosis'']"

definition ai_keywords :: "string list" where
  "ai_keywords =
     [''ai'', ''ml'', ''machine learning'', ''neural'', ''deep learning'',
      ''model'', ''algorithm'', ''training'', ''dataset'', ''tensorflow'',
      ''pytorch'', ''scikit'', ''nlp'', ''computer vision'']"

definition real_estate_keywords :: "string list" where
  "real_estate_keywords =
     [''property'', ''house'', ''apartment'', ''real estate'',
      ''mortgage'', ''rent'', ''buy house'', ''sell house'']"

definition sales_keywords :: "string list" where
  "sales_keywords =
     [''sales'', ''customer'', ''client'', ''revenue'', ''deal'',
      ''lead'', ''crm'', ''pipeline'', ''quota'', ''prospect'']"

definition education_keywords :: "string list" where
  "education_keywords =
     [''learn'', ''study'', ''education'', ''course'', ''teach'',
      ''school'', ''university'', ''exam'', ''homework'', ''curriculum'']"

definition valid_agents :: "string list" where
  "valid_agents = [''general'', ''real_estate'', ''medical'', ''ai_ml'', ''sales'', ''education'']"

text \<open>
  The reply of the language model: \<^verbatim>\<open>response.content\<close> is a \<^verbatim>\<open>str\<close>, or some other
  object (on which \<^verbatim>\<open>re.search\<close> raises \<^verbatim>\<open>TypeError\<close>).
\<close>

datatype llm_content = Text string | NonText

text \<open>What \<^verbatim>\<open>json.loads\<close> returns; a JSON object is a \<^verbatim>\<open>dict\<close>, here an association list.\<close>

datatype json =
    JNull
  | JBool bool
  | JNum int
  | JStr string
  | JArr "json list"
  | JObj "(string \<times> json) list"

text \<open>
  \<^verbatim>\<open>re.search(r'\{.*\}', response_text, re.DOTALL)\<close>: the leftmost match starts at the
  first opening brace, and the greedy \<^verbatim>\<open>.*\<close> (which crosses newlines) ends it at the last
  closing brace of the text. There is no match when no closing brace follows the first
  opening one.
\<close>

definition json_match :: "string \<Rightarrow> string option" where
  "json_match response_text =
     (let from_open = dropWhile (\<lambda>c. c \<noteq> CHR ''{'') response_text;
          to_close = rev (dropWhile (\<lambda>c. c \<noteq> CHR ''}'') (rev from_open))
      in if to_close = [] then None else Some to_close)"

text \<open>\<^verbatim>\<open>routing_decision.get(key, default)\<close>; on anything but a \<^verbatim>\<open>dict\<close> the attribute is missing.\<close>

definition dict_get :: "json \<Rightarrow> string \<Rightarrow> json \<Rightarrow> py_exception + json" where
  "dict_get d key dflt =
     (case d of
        JObj kv \<Rightarrow> Inr (case map_of kv key of None \<Rightarrow> dflt | Some v \<Rightarrow> v)
      | _ \<Rightarrow> Inl (AttributeError ''get''))"

text \<open>
  Lines 119-149, the inner \<^verbatim>\<open>try\<close>. \<open>json_loads\<close> is the JSON parser, a parameter.
  \<^verbatim>\<open>except json.JSONDecodeError\<close> returns \<^verbatim>\<open>"general"\<close>; any other exception leaves the block.
\<close>

definition parse_routing_response ::
  "(string \<Rightarrow> py_exception + json) \<Rightarrow> llm_content \<Rightarrow> py_exception + string" where
  "parse_routing_response json_loads response_content =
     (case response_content of
        NonText \<Rightarrow> Inl (TypeError ''expected string or bytes-like object'')
      | Text response_text \<Rightarrow>
          (case json_match response_text of
             None \<Rightarrow> Inr ''general''
           | Some matched \<Rightarrow>
               (case json_loads matched of
                  Inl (JSONDecodeError msg) \<Rightarrow> Inr ''general''
                | Inl e \<Rightarrow> Inl e
                | Inr routing_decision \<Rightarrow>
                    (case dict_get routing_decision ''primary_agent'' (JStr ''general'') of
                       Inl e \<Rightarrow> Inl e
                     | Inr primary_agent \<Rightarrow>
                         (case primary_agent of
                            JStr s \<Rightarrow> if s \<notin> set valid_agents then Inr ''general'' else Inr s
                          | _ \<Rightarrow> Inr ''general'')))))"

text \<open>
  The body of the outer \<^verbatim>\<open>try\<close> (lines 66-145). \<open>llm\<close> is the classifier call
  \<^verbatim>\<open>self.llm.ainvoke\<close> on the prompt built from the query. The second component counts
  the classifier calls made.
\<close>

definition route_query_try ::
  "(string \<Rightarrow> py_exception + llm_content) \<Rightarrow> (string \<Rightarrow> py_exception + json) \<Rightarrow> string
     \<Rightarrow> (py_exception + string) \<times> nat" where
  "route_query_try llm json_loads query =
     (let query_lower = lower query
      in if any_keyword general_keywords query_lower then (Inr ''general'', 0)
         else if any_keyword medical_keywords query_lower then (Inr ''medical'', 0)
         else if any_keyword ai_keywords query_lower then (Inr ''ai_ml'', 0)
         else if any_keyword real_estate_keywords query_lower then (Inr ''real_estate'', 0)
         else if any_keyword sales_keywords query_lower then (Inr ''sales'', 0)
         else if any_keyword education_keywords query_lower then (Inr ''education'', 0)
         else (case llm query of
                 Inl e \<Rightarrow> (Inl e, 1)
               | Inr response_content \<Rightarrow> (parse_routing_response json_loads response_content, 1)))"

text \<open>\<^verbatim>\<open>route_query\<close>: the body under \<^verbatim>\<open>except Exception: return "general"\<close>.\<close>

definition route_query ::
  "(string \<Rightarrow> py_exception + llm_content) \<Rightarrow> (string \<Rightarrow> py_exception + json) \<Rightarrow> string
     \<Rightarrow> (py_exception + string) \<times> nat" where
  "route_query llm json_loads query =
     (case route_query_try llm json_loads query of
        (Inl e, calls) \<Rightarrow> (Inr ''general'', calls)
      | (Inr agent, calls) \<Rightarrow> (Inr agent, calls))"

text \<open>
  The declared priority order of the fast path, as the specification words it: the six
  keyword sets with the identity each one stands for.
\<close>

definition priority_order :: "(string \<times> string list) list" where
  "priority_order =
     [(''general'', general_keywords), (''medical'', medical_keywords),
      (''ai_ml'', ai_keywords), (''real_estate'', real_estate_keywords),
      (''sales'', sales_keywords), (''education'', education_keywords)]"

definition first_hit :: "string \<Rightarrow> (string \<times> string list) option" where
  "first_hit query = find (\<lambda>(agent, keywords). any_keyword keywords (lower query)) priority_order"


section \<open>The document index: \<^verbatim>\<open>VectorStoreService\<close> (vector_store.py)\<close>

datatype meta_value = MStr string | MInt int

text \<open>A \<^verbatim>\<open>Document\<close>: its text and its metadata \<^verbatim>\<open>dict\<close> (keys in insertion order).\<close>

record document =
  page_content :: string
  metadata :: "(string \<times> meta_value) list"

text \<open>
  The state of one service object. \<open>vector_stores\<close> is \<^verbatim>\<open>self.vector_stores\<close>; a key may
  hold \<^verbatim>\<open>None\<close>, which is what \<^verbatim>\<open>_load_store\<close> returns for an unreadable index.
  \<open>store_files\<close> are the file names present under \<^verbatim>\<open>self.vector_store_path\<close>.
  The index object itself (\<open>'store\<close>) belongs to the nearest-neighbour library.
\<close>

record 'store service =
  vector_stores :: "string \<rightharpoonup> 'store option"
  store_files :: "string set"

text \<open>
  The body of the \<^verbatim>\<open>try\<close> of \<^verbatim>\<open>search\<close> (lines 131-147). \<open>sim\<close> is the library call
  \<^verbatim>\<open>vector_store.similarity_search_with_score(query, k=k)\<close>; the method neither sorts
  nor truncates what that call returns, it filters it. Scores are real numbers here.
\<close>

definition search_try ::
  "('store \<Rightarrow> string \<Rightarrow> nat \<Rightarrow> py_exception + (document \<times> real) list) \<Rightarrow> 'store service
     \<Rightarrow> string \<Rightarrow> string \<Rightarrow> nat \<Rightarrow> real \<Rightarrow> py_exception + (document \<times> real) list" where
  "search_try sim svc agent query k threshold =
     (case vector_stores svc agent of
        None \<Rightarrow> Inr []
      | Some None \<Rightarrow> Inl (AttributeError ''similarity_search_with_score'')
      | Some (Some vector_store) \<Rightarrow>
          (case sim vector_store query k of
             Inl e \<Rightarrow> Inl e
           | Inr results \<Rightarrow> Inr (filter (\<lambda>(doc, score). score \<ge> threshold) results)))"

text \<open>\<^verbatim>\<open>search\<close>: the body under \<^verbatim>\<open>except Exception: return []\<close>.\<close>

definition search ::
  "('store \<Rightarrow> string \<Rightarrow> nat \<Rightarrow> py_exception + (document \<times> real) list) \<Rightarrow> 'store service
     \<Rightarrow> string \<Rightarrow> string \<Rightarrow> nat \<Rightarrow> real \<Rightarrow> (document \<times> real) list" where
  "search sim svc agent query k threshold =
     (case search_try sim svc agent query k threshold of
        Inl e \<Rightarrow> []
      | Inr filtered_results \<Rightarrow> filtered_results)"

text \<open>
  \<^verbatim>\<open>clear_store\<close> (lines 195-211). \<open>unlink\<close> is \<^verbatim>\<open>Path.unlink\<close> on the store directory and
  may raise; the handler logs and returns, keeping what was done before the exception.
\<close>

definition unlink_if_exists ::
  "(string \<Rightarrow> string set \<Rightarrow> py_exception + string set) \<Rightarrow> string \<Rightarrow> string set
     \<Rightarrow> py_exception + string set" where
  "unlink_if_exists unlink file files =
     (if file \<in> files then unlink file files else Inr files)"

definition clear_store ::
  "(string \<Rightarrow> string set \<Rightarrow> py_exception + string set) \<Rightarrow> 'store service \<Rightarrow> string
     \<Rightarrow> 'store service" where
  "clear_store unlink svc agent =
     (let svc1 = svc\<lparr>vector_stores := (vector_stores svc)(agent := None)\<rparr>
      in case unlink_if_exists unlink (agent @ ''.pkl'') (store_files svc1) of
           Inl e \<Rightarrow> svc1
         | Inr files1 \<Rightarrow>
             (case unlink_if_exists unlink (agent @ ''.faiss'') files1 of
                Inl e \<Rightarrow> svc1\<lparr>store_files := files1\<rparr>
              | Inr files2 \<Rightarrow> svc1\<lparr>store_files := files2\<rparr>))"

text \<open>\<^verbatim>\<open>_rebuild_store_without_file\<close> (lines 239-242): a log line and \<^verbatim>\<open>pass\<close>.\<close>

definition rebuild_store_without_file ::
  "'store service \<Rightarrow> string \<Rightarrow> string \<Rightarrow> py_exception + 'store service" where
  "rebuild_store_without_file svc agent filename = Inr svc"

text \<open>\<^verbatim>\<open>remove_document\<close> (lines 178-186).\<close>

definition remove_document :: "'store service \<Rightarrow> string \<Rightarrow> string \<Rightarrow> 'store service" where
  "remove_document svc agent filename =
     (if vector_stores svc agent = None then svc
      else (case rebuild_store_without_file svc agent filename of
              Inl e \<Rightarrow> svc
            | Inr svc' \<Rightarrow> svc'))"


section \<open>Ingestion: \<^verbatim>\<open>DocumentLoader\<close> (document_loader.py)\<close>

text \<open>
  What \<^verbatim>\<open>load_single_document\<close> raises, by raise site: the \<^verbatim>\<open>ValueError\<close> of line 88
  ("File ... does not exist"), the \<^verbatim>\<open>ValueError\<close> of line 97 ("Unsupported file type: ..."),
  and whatever a parser or the splitter raised, re-raised at line 125.
\<close>

datatype load_error =
    SourceNotFound string
  | UnsupportedFormat string
  | ProcessingError py_exception

datatype loader_class =
    PyPDFLoader | UnstructuredPDFLoader | TextLoader
  | UnstructuredWordDocumentLoader | UnstructuredMarkdownLoader | CSVLoader

datatype loader_func = Load_pdf | Load_text | Load_docx | Load_markdown | Load_csv

text \<open>
  The collaborators of the loader: the file system as \<^verbatim>\<open>pathlib\<close> shows it, the parsers of
  the document library, and its text splitter.
\<close>

record loader_env =
  path_exists :: "string \<Rightarrow> bool"
  path_is_file :: "string \<Rightarrow> bool"
  path_iterdir :: "string \<Rightarrow> py_exception + string list"
  path_suffix :: "string \<Rightarrow> string"
  path_name :: "string \<Rightarrow> string"
  loader_load :: "loader_class \<Rightarrow> string \<Rightarrow> py_exception + document list"
  split_documents :: "document list \<Rightarrow> py_exception + document list"

definition loader_mapping :: "(string \<times> loader_func) list" where
  "loader_mapping =
     [(''.pdf'', Load_pdf), (''.txt'', Load_text), (''.docx'', Load_docx),
      (''.doc'', Load_docx), (''.md'', Load_markdown), (''.csv'', Load_csv)]"

text \<open>The five \<^verbatim>\<open>_load_*\<close> methods; \<^verbatim>\<open>_load_pdf\<close> falls back to a second parser.\<close>

definition run_loader_func ::
  "loader_env \<Rightarrow> loader_func \<Rightarrow> string \<Rightarrow> py_exception + document list" where
  "run_loader_func env f file_path =
     (case f of
        Load_pdf \<Rightarrow>
          (case loader_load env PyPDFLoader file_path of
             Inl e \<Rightarrow> loader_load env UnstructuredPDFLoader file_path
           | Inr docs \<Rightarrow> Inr docs)
      | Load_text \<Rightarrow> loader_load env TextLoader file_path
      | Load_docx \<Rightarrow> loader_load env UnstructuredWordDocumentLoader file_path
      | Load_markdown \<Rightarrow> loader_load env UnstructuredMarkdownLoader file_path
      | Load_csv \<Rightarrow> loader_load env CSVLoader file_path)"

text \<open>\<^verbatim>\<open>d[k] = v\<close> and \<^verbatim>\<open>doc.metadata.update({...})\<close> on an insertion-ordered \<^verbatim>\<open>dict\<close>.\<close>

fun dict_set :: "'k \<Rightarrow> 'v \<Rightarrow> ('k \<times> 'v) list \<Rightarrow> ('k \<times> 'v) list" where
  "dict_set k v [] = [(k, v)]"
| "dict_set k v ((k', v') # kvs) =
     (if k' = k then (k, v) # kvs else (k', v') # dict_set k v kvs)"

definition metadata_update :: "document \<Rightarrow> (string \<times> meta_value) list \<Rightarrow> document" where
  "metadata_update doc kvs =
     doc\<lparr>metadata := foldl (\<lambda>m (k, v). dict_set k v m) (metadata doc) kvs\<rparr>"

text \<open>\<^verbatim>\<open>load_single_document\<close> (lines 85-125).\<close>

definition load_single_document :: "loader_env \<Rightarrow> string \<Rightarrow> load_error + document list" where
  "load_single_document env file_path =
     (if \<not> path_exists env file_path then Inl (SourceNotFound file_path)
      else
        (let file_ext = lower (path_suffix env file_path)
         in case map_of loader_mapping file_ext of
              None \<Rightarrow> Inl (UnsupportedFormat file_ext)
            | Some f \<Rightarrow>
                (case run_loader_func env f file_path of
                   Inl e \<Rightarrow> Inl (ProcessingError e)
                 | Inr raw_documents \<Rightarrow>
                     (case split_documents env
                             (map (\<lambda>doc. metadata_update doc
                                     [(''source'', MStr file_path),
                                      (''filename'', MStr (path_name env file_path)),
                                      (''file_type'', MStr file_ext)]) raw_documents) of
                        Inl e \<Rightarrow> Inl (ProcessingError e)
                      | Inr chunks \<Rightarrow>
                          Inr (map (\<lambda>(i, chunk). metadata_update chunk
                                      [(''chunk_index'', MInt (int i)),
                                       (''total_chunks'', MInt (int (length chunks)))])
                                 (enumerate 0 chunks))))))"

text \<open>
  The loop of \<^verbatim>\<open>load_documents\<close> (lines 63-70) over the directory entries: the chunks
  collected so far and the errors logged so far, each with the name of its file.
\<close>

fun load_documents_loop ::
  "loader_env \<Rightarrow> string list \<Rightarrow> document list \<times> (string \<times> load_error) list
     \<Rightarrow> document list \<times> (string \<times> load_error) list" where
  "load_documents_loop env [] acc = acc"
| "load_documents_loop env (file_path # rest) (documents, logged) =
     (if path_is_file env file_path
      then (case load_single_document env file_path of
              Inl e \<Rightarrow>
                load_documents_loop env rest
                  (documents, logged @ [(path_name env file_path, e)])
            | Inr file_docs \<Rightarrow> load_documents_loop env rest (documents @ file_docs, logged))
      else load_documents_loop env rest (documents, logged))"

text \<open>\<^verbatim>\<open>load_documents\<close> (lines 55-73); \<^verbatim>\<open>iterdir\<close> is outside any handler.\<close>

definition load_documents ::
  "loader_env \<Rightarrow> string \<Rightarrow> py_exception + document list \<times> (string \<times> load_error) list" where
  "load_documents env directory_path =
     (if \<not> path_exists env directory_path then Inr ([], [])
      else (case path_iterdir env directory_path of
              Inl e \<Rightarrow> Inl e
            | Inr entries \<Rightarrow> Inr (load_documents_loop env entries ([], []))))"

section \<open>One chat turn: \<^verbatim>\<open>process_query\<close> (specialized_agents.py) and \<^verbatim>\<open>send_message\<close> (chat.py)\<close>

text \<open>The messages of a \<^verbatim>\<open>ConversationBufferMemory\<close>, oldest first.\<close>

datatype chat_message = HumanMessage string | AIMessage string

text \<open>An entry of the module-level \<^verbatim>\<open>sessions\<close> dictionary.\<close>

record session =
  memory :: "chat_message list"
  created_at :: string
  message_count :: int
  agents_used :: "string list"

text \<open>\<^verbatim>\<open>ChatRequest\<close>; \<^verbatim>\<open>None\<close> is \<open>None\<close>.\<close>

record chat_request =
  req_message :: string
  req_session_id :: "string option"
  req_agent_override :: "string option"
  req_include_sources :: bool

record source_entry =
  src_content :: string
  src_metadata :: "(string \<times> meta_value) list"
  src_score :: real

text \<open>The dictionary \<^verbatim>\<open>process_query\<close> returns.\<close>

record agent_result =
  res_response :: string
  res_sources :: "source_entry list option"
  res_agent :: string
  res_tokens_used :: int

text \<open>\<^verbatim>\<open>ChatResponse\<close>, without the timing figures and the timestamp.\<close>

record chat_response =
  resp_response :: string
  resp_session_id :: string
  resp_agent_used :: string
  resp_sources :: "source_entry list option"

text \<open>
  What a turn does to its collaborators, in order: a call of
  \<^verbatim>\<open>orchestrator.route_query\<close>, and a call of \<^verbatim>\<open>process_query\<close> on the agent of that name.
\<close>

datatype event = RouteQuery string | ProcessQuery string string

text \<open>
  The collaborators of a turn: the identifier \<^verbatim>\<open>uuid.uuid4()\<close> would draw, the clock, the
  classifier and the JSON parser of the router, the reasoning step of each agent
  (\<^verbatim>\<open>self.agent.ainvoke\<close>: agent name, input, chat history), the nearest-neighbour call,
  and the \<^verbatim>\<open>VectorStoreService\<close> object each agent holds. Building an agent object is
  taken to succeed.
\<close>

record 'store chat_env =
  uuid4 :: string
  now :: string
  env_llm :: "string \<Rightarrow> py_exception + llm_content"
  env_json_loads :: "string \<Rightarrow> py_exception + json"
  agent_ainvoke :: "string \<Rightarrow> string \<Rightarrow> chat_message list \<Rightarrow> py_exception + string"
  similarity_search :: "'store \<Rightarrow> string \<Rightarrow> nat \<Rightarrow> py_exception + (document \<times> real) list"
  agent_service :: "string \<Rightarrow> 'store service"

text \<open>\<^verbatim>\<open>str(e)\<close> of an exception.\<close>

fun exception_str :: "py_exception \<Rightarrow> string" where
  "exception_str (JSONDecodeError msg) = msg"
| "exception_str (TypeError msg) = msg"
| "exception_str (AttributeError msg) = msg"
| "exception_str (ValueError msg) = msg"
| "exception_str (HTTPException status detail) = detail"
| "exception_str (OtherException msg) = msg"

definition newline :: char where
  "newline = CHR 0x0A"

text \<open>The context block of lines 109-112 and the sources of lines 113-117.\<close>

definition build_context :: "(document \<times> real) list \<Rightarrow> string" where
  "build_context search_results =
     (if search_results = [] then []
      else [newline, newline] @ ''Relevant information from knowledge base:'' @ [newline]
           @ concat (map (\<lambda>(doc, score). [newline] @ ''- '' @ take 500 (page_content doc) @ ''...'')
                       search_results))"

definition build_sources :: "(document \<times> real) list \<Rightarrow> source_entry list" where
  "build_sources search_results =
     map (\<lambda>(doc, score).
            \<lparr>src_content = take 200 (page_content doc), src_metadata = metadata doc,
             src_score = score\<rparr>) search_results"

text \<open>
  \<^verbatim>\<open>process_query\<close> (lines 97-149) on the agent called \<open>agent_name\<close>. The memory object is
  shared with the session, so the function returns its messages after the call as well.
  \<^verbatim>\<open>search\<close> is called with \<^verbatim>\<open>k=5\<close> and its default threshold 0.7.
\<close>

definition process_query ::
  "'store chat_env \<Rightarrow> string \<Rightarrow> string \<Rightarrow> chat_message list \<Rightarrow> bool
     \<Rightarrow> (py_exception + agent_result) \<times> chat_message list" where
  "process_query env agent_name query mem include_sources =
     (let search_results =
            (if include_sources
             then search (similarity_search env) (agent_service env agent_name)
                    agent_name query 5 (7 / 10)
             else []);
          context = build_context search_results;
          sources = build_sources search_results;
          enhanced_query = (if context \<noteq> [] then query @ [newline] @ context else query);
          chat_history = mem
      in case agent_ainvoke env agent_name enhanced_query chat_history of
           Inl e \<Rightarrow> (Inl e, mem)
         | Inr output \<Rightarrow>
             (Inr \<lparr>res_response = output,
                   res_sources = (if include_sources then Some sources else None),
                   res_agent = agent_name, res_tokens_used = 0\<rparr>,
              mem @ [HumanMessage query, AIMessage output]))"

text \<open>The keys of \<^verbatim>\<open>SpecializedAgentFactory.agents\<close>; \<^verbatim>\<open>get_agent\<close> raises on any other name.\<close>

definition factory_agents :: "string list" where
  "factory_agents = [''general'', ''real_estate'', ''medical'', ''ai_ml'', ''sales'', ''education'']"

definition get_agent :: "string \<Rightarrow> py_exception + string" where
  "get_agent agent_name =
     (if agent_name \<notin> set factory_agents then Inl (ValueError (''Unknown agent: '' @ agent_name))
      else Inr agent_name)"

text \<open>Python truth of an \<^verbatim>\<open>Optional[str]\<close>: neither \<^verbatim>\<open>None\<close> nor the empty string.\<close>

definition truthy :: "string option \<Rightarrow> bool" where
  "truthy v = (case v of None \<Rightarrow> False | Some s \<Rightarrow> s \<noteq> [])"

text \<open>Line 73: \<^verbatim>\<open>request.session_id or str(uuid.uuid4())\<close>.\<close>

definition resolve_session_id :: "'store chat_env \<Rightarrow> chat_request \<Rightarrow> string" where
  "resolve_session_id env request =
     (if truthy (req_session_id request) then the (req_session_id request) else uuid4 env)"

text \<open>Lines 75-84: the session of the turn, created if absent, with its count raised.\<close>

definition open_session :: "'store chat_env \<Rightarrow> (string \<rightharpoonup> session) \<Rightarrow> string \<Rightarrow> session" where
  "open_session env sessions sid =
     (let session =
            (case sessions sid of
               None \<Rightarrow> \<lparr>memory = [], created_at = now env, message_count = 0, agents_used = []\<rparr>
             | Some s \<Rightarrow> s)
      in session\<lparr>message_count := message_count session + 1\<rparr>)"

text \<open>
  Lines 89-98: the agent of the turn, and the router call made to find it, if any.
  \<^verbatim>\<open>route_query\<close> catches every exception, so its \<open>Inl\<close> case never occurs.
\<close>

definition select_agent :: "'store chat_env \<Rightarrow> chat_request \<Rightarrow> string \<times> event list" where
  "select_agent env request =
     (if truthy (req_agent_override request) then (the (req_agent_override request), [])
      else (case fst (route_query (env_llm env) (env_json_loads env) (req_message request)) of
              Inr selected_agent \<Rightarrow> (selected_agent, [RouteQuery (req_message request)])
            | Inl e \<Rightarrow> (''general'', [RouteQuery (req_message request)])))"

text \<open>Lines 101-102.\<close>

definition track_agent_usage :: "string \<Rightarrow> session \<Rightarrow> session" where
  "track_agent_usage selected_agent session =
     (if selected_agent \<notin> set (agents_used session)
      then session\<lparr>agents_used := agents_used session @ [selected_agent]\<rparr>
      else session)"

text \<open>
  \<^verbatim>\<open>send_message\<close> (lines 71-148): the response or the \<^verbatim>\<open>HTTPException\<close> raised by the
  handler of line 146, the \<^verbatim>\<open>sessions\<close> dictionary after the turn, and the calls made.
\<close>

definition send_message ::
  "'store chat_env \<Rightarrow> (string \<rightharpoonup> session) \<Rightarrow> chat_request
     \<Rightarrow> (py_exception + chat_response) \<times> (string \<rightharpoonup> session) \<times> event list" where
  "send_message env sessions request =
     (let session_id = resolve_session_id env request;
          session1 = open_session env sessions session_id;
          (selected_agent, routed) = select_agent env request;
          session2 = track_agent_usage selected_agent session1;
          sessions2 = sessions(session_id \<mapsto> session2)
      in case get_agent selected_agent of
           Inl e \<Rightarrow>
             (Inl (HTTPException 500 (''Failed to process message: '' @ exception_str e)),
              sessions2, routed)
         | Inr agent \<Rightarrow>
             (case process_query env agent (req_message request) (memory session2)
                     (req_include_sources request) of
                (Inl e, mem) \<Rightarrow>
                  (Inl (HTTPException 500 (''Failed to process message: '' @ exception_str e)),
                   sessions(session_id \<mapsto> session2\<lparr>memory := mem\<rparr>),
                   routed @ [ProcessQuery agent (req_message request)])
              | (Inr result, mem) \<Rightarrow>
                  (Inr \<lparr>resp_response = res_response result, resp_session_id = session_id,
                        resp_agent_used = selected_agent,
                        resp_sources =
                          (if req_include_sources request then res_sources result else None)\<rparr>,
                   sessions(session_id \<mapsto> session2\<lparr>memory := mem\<rparr>),
                   routed @ [ProcessQuery agent (req_message request)])))"

section \<open>A small installation, for concrete runs\<close>

text \<open>
  Three chunks of two files indexed for the medical agent, and a nearest-neighbour call
  that answers as the FAISS index of the code does: the score of a chunk is its L2 distance
  to the query, the nearest chunk comes first, and at most \<open>k\<close> chunks are returned.
  Index objects are numbered.
\<close>

definition chunk_flu :: document where
  "chunk_flu = \<lparr>page_content = ''Influenza is a viral infection.'',
                 metadata = [(''filename'', MStr ''flu.txt''), (''chunk_index'', MInt 0)]\<rparr>"

definition chunk_rest :: document where
  "chunk_rest = \<lparr>page_content = ''Rest and fluids help recovery.'',
                  metadata = [(''filename'', MStr ''flu.txt''), (''chunk_index'', MInt 1)]\<rparr>"

definition chunk_diet :: document where
  "chunk_diet = \<lparr>page_content = ''A balanced diet has many vegetables.'',
                  metadata = [(''filename'', MStr ''diet.md''), (''chunk_index'', MInt 0)]\<rparr>"

definition demo_sim :: "nat \<Rightarrow> string \<Rightarrow> nat \<Rightarrow> py_exception + (document \<times> real) list" where
  "demo_sim vector_store query k =
     Inr (take k [(chunk_flu, 0), (chunk_rest, 1 / 4), (chunk_diet, 2)])"

definition demo_service :: "nat service" where
  "demo_service =
     \<lparr>vector_stores = [''medical'' \<mapsto> Some 0],
      store_files = {''medical.pkl'', ''medical.faiss''}\<rparr>"

definition demo_unlink :: "string \<Rightarrow> string set \<Rightarrow> py_exception + string set" where
  "demo_unlink file files = Inr (files - {file})"

text \<open>
  A data directory with a text file, a PDF no parser can read, a file of an unsupported
  type and a Markdown file. The splitter leaves each document as one chunk.
\<close>

text \<open>
  \<^verbatim>\<open>Path.name\<close> and \<^verbatim>\<open>Path.suffix\<close> of \<^verbatim>\<open>pathlib\<close>: the name is the last component of the
  path, and the suffix starts at the last dot of the name when that dot is neither its
  first nor its last character (\<^verbatim>\<open>0 < i < len(name) - 1\<close>), and is empty otherwise.
\<close>

definition demo_name :: "string \<Rightarrow> string" where
  "demo_name p =
     rev (takeWhile (\<lambda>c. c \<noteq> CHR ''/'') (dropWhile (\<lambda>c. c = CHR ''/'') (rev p)))"

definition demo_suffix :: "string \<Rightarrow> string" where
  "demo_suffix p =
     (let name = demo_name p;
          after_dot = rev (takeWhile (\<lambda>c. c \<noteq> CHR ''.'') (rev name));
          up_to_dot = dropWhile (\<lambda>c. c \<noteq> CHR ''.'') (rev name)
      in if 1 < length up_to_dot \<and> after_dot \<noteq> [] then CHR ''.'' # after_dot else [])"

definition demo_load :: "loader_class \<Rightarrow> string \<Rightarrow> py_exception + document list" where
  "demo_load cls p =
     (if cls = TextLoader \<and> p = ''data/flu.txt''
      then Inr [\<lparr>page_content = ''Influenza is a viral infection.'', metadata = []\<rparr>]
      else if cls = UnstructuredMarkdownLoader \<and> p = ''data/diet.md''
      then Inr [\<lparr>page_content = ''A balanced diet has many vegetables.'', metadata = []\<rparr>]
      else Inl (OtherException ''cannot parse''))"

definition demo_loader_env :: loader_env where
  "demo_loader_env =
     \<lparr>path_exists = (\<lambda>p. p \<in> set [''data'', ''data/flu.txt'', ''data/broken.pdf'',
                                   ''data/notes.xyz'', ''data/diet.md'']),
      path_is_file = (\<lambda>p. p \<in> set [''data/flu.txt'', ''data/broken.pdf'',
                                    ''data/notes.xyz'', ''data/diet.md'']),
      path_iterdir = (\<lambda>p. if p = ''data''
                          then Inr [''data/flu.txt'', ''data/broken.pdf'',
                                    ''data/notes.xyz'', ''data/diet.md'']
                          else Inl (OtherException ''not a directory'')),
      path_suffix = demo_suffix,
      path_name = demo_name,
      loader_load = demo_load,
      split_documents = (\<lambda>docs. Inr docs)\<rparr>"

text \<open>
  A chat installation in which every agent answers, one in which the reasoning step of every
  agent fails, and a session store with one earlier conversation.
\<close>

definition demo_chat_env :: "nat chat_env" where
  "demo_chat_env =
     \<lparr>uuid4 = ''3f2a9c1e'',
      now = ''2024-01-01T00:00:00'',
      env_llm = (\<lambda>q. Inr (Text ''{}'')),
      env_json_loads = (\<lambda>s. Inr (JObj [])),
      agent_ainvoke = (\<lambda>agent_name input chat_history. Inr (''answer from '' @ agent_name)),
      similarity_search = demo_sim,
      agent_service = (\<lambda>agent_name. demo_service)\<rparr>"

definition failing_chat_env :: "nat chat_env" where
  "failing_chat_env =
     demo_chat_env\<lparr>agent_ainvoke :=
       (\<lambda>agent_name input chat_history. Inl (OtherException ''model call failed''))\<rparr>"

definition demo_sessions :: "string \<rightharpoonup> session" where
  "demo_sessions =
     [''s1'' \<mapsto> \<lparr>memory = [HumanMessage ''hello'', AIMessage ''answer from general''],
                 created_at = ''2023-12-31T23:00:00'', message_count = 1,
                 agents_used = [''general'']\<rparr>]"

definition override_request :: "string \<Rightarrow> chat_request" where
  "override_request agent_name =
     \<lparr>req_message = ''I want to buy a house'', req_session_id = Some ''s1'',
      req_agent_override = Some agent_name, req_include_sources = False\<rparr>"

definition weather_request :: "string option \<Rightarrow> chat_request" where
  "weather_request sid =
     \<lparr>req_message = ''What is the weather in Dhaka?'', req_session_id = sid,
      req_agent_override = None, req_include_sources = True\<rparr>"

section \<open>The words of the specification, for ingestion\<close>

text \<open>The supported set of the specification: pdf, txt, docx/doc, md, csv, as suffixes.\<close>

definition supported_extensions :: "string list" where
  "supported_extensions = [''.pdf'', ''.txt'', ''.docx'', ''.doc'', ''.md'', ''.csv'']"

text \<open>What one file of a batch contributes: its chunks if it loads, a log line if it fails.\<close>

definition chunks_of_file :: "loader_env \<Rightarrow> string \<Rightarrow> document list" where
  "chunks_of_file env file_path =
     (case load_single_document env file_path of Inl e \<Rightarrow> [] | Inr chunks \<Rightarrow> chunks)"

definition log_of_file :: "loader_env \<Rightarrow> string \<Rightarrow> (string \<times> load_error) list" where
  "log_of_file env file_path =
     (case load_single_document env file_path of
        Inl e \<Rightarrow> [(path_name env file_path, e)]
      | Inr chunks \<Rightarrow> [])"

section \<open>Properties of the router\<close>

lemma startswith_iff: "startswith s kw \<longleftrightarrow> (\<exists>post. s = kw @ post)"
  by (induction s kw rule: startswith.induct) auto

lemma str_in_iff: "str_in kw s \<longleftrightarrow> (\<exists>pre post. s = pre @ kw @ post)"
proof (induction s)
  case Nil
  then show ?case by auto
next
  case (Cons c cs)
  show ?case
  proof
    assume "str_in kw (c # cs)"
    then consider "startswith (c # cs) kw" | "str_in kw cs" by auto
    then show "\<exists>pre post. c # cs = pre @ kw @ post"
    proof cases
      case 1
      then obtain post where "c # cs = kw @ post" using startswith_iff by blast
      then have "c # cs = [] @ kw @ post" by simp
      then show ?thesis by blast
    next
      case 2
      then obtain pre post where "cs = pre @ kw @ post" using Cons.IH by blast
      then have "c # cs = (c # pre) @ kw @ post" by simp
      then show ?thesis by blast
    qed
  next
    assume "\<exists>pre post. c # cs = pre @ kw @ post"
    then obtain pre post where eq: "c # cs = pre @ kw @ post" by blast
    show "str_in kw (c # cs)"
    proof (cases pre)
      case Nil
      with eq have "startswith (c # cs) kw" using startswith_iff by auto
      then show ?thesis by simp
    next
      case (Cons p ps)
      with eq have "cs = ps @ kw @ post" by simp
      then have "str_in kw cs" using Cons.IH by blast
      then show ?thesis by simp
    qed
  qed
qed

lemma any_keyword_mem: "kw \<in> set kws \<Longrightarrow> str_in kw s \<Longrightarrow> any_keyword kws s"
  by (auto simp: any_keyword_def list_ex_iff)

lemma first_hit_cases:
  "first_hit query =
     (let q = lower query
      in if any_keyword general_keywords q then Some (''general'', general_keywords)
         else if any_keyword medical_keywords q then Some (''medical'', medical_keywords)
         else if any_keyword ai_keywords q then Some (''ai_ml'', ai_keywords)
         else if any_keyword real_estate_keywords q then Some (''real_estate'', real_estate_keywords)
         else if any_keyword sales_keywords q then Some (''sales'', sales_keywords)
         else if any_keyword education_keywords q then Some (''education'', education_keywords)
         else None)"
  by (simp add: first_hit_def priority_order_def Let_def)

lemma route_query_fast:
  "first_hit query = Some (agent, kws) \<Longrightarrow> route_query llm json_loads query = (Inr agent, 0)"
  by (simp add: first_hit_cases route_query_def route_query_try_def Let_def split: if_splits)

lemma route_query_slow:
  "first_hit query = None \<Longrightarrow>
   route_query llm json_loads query =
     (case llm query of
        Inl e \<Rightarrow> (Inr ''general'', 1)
      | Inr c \<Rightarrow> (case parse_routing_response json_loads c of
                    Inl e \<Rightarrow> (Inr ''general'', 1)
                  | Inr agent \<Rightarrow> (Inr agent, 1)))"
  by (simp add: first_hit_cases route_query_def route_query_try_def Let_def
           split: if_splits sum.splits)

lemma first_hit_defined:
  assumes "(agent, kws) \<in> set priority_order" and "any_keyword kws (lower query)"
  shows "\<exists>hit. first_hit query = Some hit"
proof -
  have "first_hit query \<noteq> None"
    unfolding first_hit_def find_None_iff using assms by blast
  then show ?thesis by blast
qed

text \<open>The router returns a name, whatever its collaborators do, and the name is a known one.\<close>

lemma parse_routing_response_valid:
  "parse_routing_response json_loads c = Inr agent \<Longrightarrow> agent \<in> set valid_agents"
  by (cases c)
     (simp_all add: parse_routing_response_def valid_agents_def dict_get_def
           split: option.splits sum.splits py_exception.splits json.splits if_splits)

lemma route_query_returns:
  "\<exists>agent calls. route_query llm json_loads query = (Inr agent, calls)"
  unfolding route_query_def by (auto split: prod.splits sum.splits)

text \<open>
  Claim C2. When the lower-cased query contains a keyword of one of the six keyword sets,
  \<open>route_query\<close> returns the identity of the first set, in the order general, medical,
  ai_ml, real_estate, sales, education, that has a keyword in it, and makes no classifier
  call; a query with a keyword of the general set is routed to \<open>general\<close>, whatever the
  classifier and the parser would do.
\<close>

theorem route_fast_path_first_match:
  assumes "(agent, kws) \<in> set priority_order" and "any_keyword kws (lower query)"
  shows "(\<exists>hit. first_hit query = Some hit
            \<and> route_query llm json_loads query = (Inr (fst hit), 0))
         \<and> (any_keyword general_keywords (lower query)
              \<longrightarrow> route_query llm json_loads query = (Inr ''general'', 0))"
proof
  obtain hit where hit: "first_hit query = Some hit"
    using first_hit_defined [OF assms] by blast
  then have "route_query llm json_loads query = (Inr (fst hit), 0)"
    using route_query_fast [of query "fst hit" "snd hit"] by simp
  with hit show "\<exists>hit. first_hit query = Some hit
      \<and> route_query llm json_loads query = (Inr (fst hit), 0)" by blast
next
  show "any_keyword general_keywords (lower query)
      \<longrightarrow> route_query llm json_loads query = (Inr ''general'', 0)"
    by (simp add: route_query_def route_query_try_def Let_def)
qed

theorem route_fast_path_first_match_witness:
  "(''general'', general_keywords) \<in> set priority_order
   \<and> any_keyword general_keywords (lower ''What is the weather in Dhaka?'')
   \<and> first_hit ''What is the weather in Dhaka?'' = Some (''general'', general_keywords)
   \<and> route_query (\<lambda>q. Inl (OtherException ''not called''))
        (\<lambda>s. Inl (JSONDecodeError ''not called'')) ''What is the weather in Dhaka?''
       = (Inr ''general'', 0)"
proof -
  have m: "(''general'', general_keywords) \<in> set priority_order"
    by (simp add: priority_order_def)
  have k: "any_keyword general_keywords (lower ''What is the weather in Dhaka?'')"
    by code_simp
  have f: "first_hit ''What is the weather in Dhaka?'' = Some (''general'', general_keywords)"
    using k by (simp add: first_hit_cases)
  from route_fast_path_first_match [OF m k] m k f show ?thesis by simp
qed

text \<open>The ways the classifier tier fails, one by one.\<close>

lemma route_fallback_call_raises:
  assumes "first_hit query = None" "llm query = Inl e"
  shows "route_query llm json_loads query = (Inr ''general'', 1)"
  using route_query_slow [OF assms(1), of llm json_loads] assms(2) by simp

lemma route_fallback_no_text:
  assumes "first_hit query = None" "llm query = Inr NonText"
  shows "route_query llm json_loads query = (Inr ''general'', 1)"
  using route_query_slow [OF assms(1), of llm json_loads] assms(2)
  by (simp add: parse_routing_response_def)

lemma route_fallback_no_match:
  assumes "first_hit query = None" "llm query = Inr (Text t)" "json_match t = None"
  shows "route_query llm json_loads query = (Inr ''general'', 1)"
  using route_query_slow [OF assms(1), of llm json_loads] assms(2,3)
  by (simp add: parse_routing_response_def)

lemma parse_raises:
  assumes "json_match t = Some m" "json_loads m = Inl e"
  shows "parse_routing_response json_loads (Text t) = Inr ''general''
         \<or> parse_routing_response json_loads (Text t) = Inl e"
  using assms by (cases e) (simp_all add: parse_routing_response_def)

lemma route_fallback_parser_raises:
  assumes "first_hit query = None" "llm query = Inr (Text t)" "json_match t = Some m"
     "json_loads m = Inl e"
  shows "route_query llm json_loads query = (Inr ''general'', 1)"
proof -
  have "parse_routing_response json_loads (Text t) = Inr ''general''
         \<or> parse_routing_response json_loads (Text t) = Inl e"
    using assms(3,4) by (rule parse_raises)
  then show ?thesis
    using route_query_slow [OF assms(1), of llm json_loads] assms(2) by auto
qed

lemma parse_unknown:
  assumes "json_match t = Some m" "json_loads m = Inr d"
    "dict_get d ''primary_agent'' (JStr ''general'') \<notin> Inr ` JStr ` set valid_agents"
  shows "parse_routing_response json_loads (Text t) = Inr ''general''
          \<or> (\<exists>e. parse_routing_response json_loads (Text t) = Inl e)"
proof (cases "dict_get d ''primary_agent'' (JStr ''general'')")
  case (Inl e)
  with assms show ?thesis by (simp add: parse_routing_response_def)
next
  case (Inr v)
  show ?thesis
  proof (cases v)
    case (JStr a)
    with Inr assms(3) have "a \<notin> set valid_agents" by blast
    with JStr Inr assms show ?thesis by (simp add: parse_routing_response_def)
  qed (use Inr assms in \<open>simp_all add: parse_routing_response_def\<close>)
qed

lemma route_fallback_unknown_agent:
  assumes "first_hit query = None" "llm query = Inr (Text t)" "json_match t = Some m"
     "json_loads m = Inr d"
    "dict_get d ''primary_agent'' (JStr ''general'') \<notin> Inr ` JStr ` set valid_agents"
  shows "route_query llm json_loads query = (Inr ''general'', 1)"
proof -
  have "parse_routing_response json_loads (Text t) = Inr ''general''
          \<or> (\<exists>e. parse_routing_response json_loads (Text t) = Inl e)"
    using assms(3,4,5) by (rule parse_unknown)
  then show ?thesis
    using route_query_slow [OF assms(1), of llm json_loads] assms(2) by auto
qed

text \<open>
  Claim C3. When no keyword set matches and the classifier tier fails, \<open>route_query\<close>
  returns \<open>general\<close> and raises nothing. The tier fails when the call raises, when the
  reply is no text, when the reply holds no brace-delimited object, when the parser raises
  on the object (a decode error or any other exception), or when the parsed value has no
  \<open>primary_agent\<close> among the six known identities.
\<close>

theorem route_classifier_failure_is_general:
  assumes "first_hit query = None"
    and "(\<exists>e. llm query = Inl e)
       \<or> llm query = Inr NonText
       \<or> (\<exists>t. llm query = Inr (Text t) \<and> json_match t = None)
       \<or> (\<exists>t m e. llm query = Inr (Text t) \<and> json_match t = Some m \<and> json_loads m = Inl e)
       \<or> (\<exists>t m d. llm query = Inr (Text t) \<and> json_match t = Some m \<and> json_loads m = Inr d
             \<and> dict_get d ''primary_agent'' (JStr ''general'') \<notin> Inr ` JStr ` set valid_agents)"
  shows "route_query llm json_loads query = (Inr ''general'', 1)"
  using assms(2)
proof (elim disjE exE conjE)
  fix e assume "llm query = Inl e"
  with assms(1) show ?thesis by (rule route_fallback_call_raises)
next
  assume "llm query = Inr NonText"
  with assms(1) show ?thesis by (rule route_fallback_no_text)
next
  fix t assume "llm query = Inr (Text t)" "json_match t = None"
  with assms(1) show ?thesis by (rule route_fallback_no_match)
next
  fix t m e assume "llm query = Inr (Text t)" "json_match t = Some m" "json_loads m = Inl e"
  with assms(1) show ?thesis by (rule route_fallback_parser_raises)
next
  fix t m d assume "llm query = Inr (Text t)" "json_match t = Some m" "json_loads m = Inr d"
    "dict_get d ''primary_agent'' (JStr ''general'') \<notin> Inr ` JStr ` set valid_agents"
  with assms(1) show ?thesis by (rule route_fallback_unknown_agent)
qed

theorem route_classifier_failure_is_general_witness:
  "first_hit ''Tell me a joke'' = None
   \<and> route_query (\<lambda>q. Inl (OtherException ''request timed out''))
        (\<lambda>s. Inr (JObj [])) ''Tell me a joke'' = (Inr ''general'', 1)
   \<and> json_match ''I would pick {primary_agent: general'' = None
   \<and> route_query (\<lambda>q. Inr (Text ''I would pick {primary_agent: general''))
        (\<lambda>s. Inr (JObj [])) ''Tell me a joke'' = (Inr ''general'', 1)
   \<and> json_match ''Sure! {primary_agent: comedy} Done.'' = Some ''{primary_agent: comedy}''
   \<and> route_query (\<lambda>q. Inr (Text ''Sure! {primary_agent: comedy} Done.''))
        (\<lambda>s. Inl (JSONDecodeError ''Expecting property name'')) ''Tell me a joke''
       = (Inr ''general'', 1)
   \<and> route_query (\<lambda>q. Inr (Text ''Sure! {primary_agent: comedy} Done.''))
        (\<lambda>s. Inr (JObj [(''primary_agent'', JStr ''comedy'')])) ''Tell me a joke''
       = (Inr ''general'', 1)"
proof -
  have n: "first_hit ''Tell me a joke'' = None" by code_simp
  have m1: "json_match ''I would pick {primary_agent: general'' = None" by code_simp
  have m2: "json_match ''Sure! {primary_agent: comedy} Done.'' = Some ''{primary_agent: comedy}''"
    by code_simp
  have u: "dict_get (JObj [(''primary_agent'', JStr ''comedy'')]) ''primary_agent''
             (JStr ''general'') \<notin> Inr ` JStr ` set valid_agents"
    by (auto simp: dict_get_def valid_agents_def)
  have a: "route_query (\<lambda>q. Inl (OtherException ''request timed out''))
        (\<lambda>s. Inr (JObj [])) ''Tell me a joke'' = (Inr ''general'', 1)"
    using route_classifier_failure_is_general
      [where query = "''Tell me a joke''"
         and llm = "\<lambda>q. Inl (OtherException ''request timed out'')"
         and json_loads = "\<lambda>s. Inr (JObj [])", OF n]
    by simp
  have b: "route_query (\<lambda>q. Inr (Text ''I would pick {primary_agent: general''))
        (\<lambda>s. Inr (JObj [])) ''Tell me a joke'' = (Inr ''general'', 1)"
    using route_classifier_failure_is_general
      [where query = "''Tell me a joke''"
         and llm = "\<lambda>q. Inr (Text ''I would pick {primary_agent: general'')"
         and json_loads = "\<lambda>s. Inr (JObj [])", OF n] m1
    by simp
  have c: "route_query (\<lambda>q. Inr (Text ''Sure! {primary_agent: comedy} Done.''))
        (\<lambda>s. Inl (JSONDecodeError ''Expecting property name'')) ''Tell me a joke''
       = (Inr ''general'', 1)"
    using route_classifier_failure_is_general
      [where query = "''Tell me a joke''"
         and llm = "\<lambda>q. Inr (Text ''Sure! {primary_agent: comedy} Done.'')"
         and json_loads = "\<lambda>s. Inl (JSONDecodeError ''Expecting property name'')", OF n] m2
    by simp
  have d: "route_query (\<lambda>q. Inr (Text ''Sure! {primary_agent: comedy} Done.''))
        (\<lambda>s. Inr (JObj [(''primary_agent'', JStr ''comedy'')])) ''Tell me a joke''
       = (Inr ''general'', 1)"
    using route_classifier_failure_is_general
      [where query = "''Tell me a joke''"
         and llm = "\<lambda>q. Inr (Text ''Sure! {primary_agent: comedy} Done.'')"
         and json_loads = "\<lambda>s. Inr (JObj [(''primary_agent'', JStr ''comedy'')])", OF n] m2 u
    by simp
  from n m1 m2 a b c d show ?thesis by blast
qed

text \<open>
  Claim C10. The fast path tests substring containment, not words: a query whose
  lower-cased text has the letters \<open>hi\<close> anywhere, as in "which", is routed to
  \<open>general\<close>, and one with \<open>ai\<close> anywhere, as in "maintain", to \<open>ai_ml\<close> when no
  keyword of the general and medical sets occurs in it; neither makes a classifier call.
\<close>

theorem route_substring_not_word:
  "((\<exists>pre post. lower query = pre @ ''hi'' @ post)
      \<longrightarrow> route_query llm json_loads query = (Inr ''general'', 0))
   \<and> ((\<exists>pre post. lower query = pre @ ''ai'' @ post)
        \<and> \<not> any_keyword general_keywords (lower query)
        \<and> \<not> any_keyword medical_keywords (lower query)
      \<longrightarrow> route_query llm json_loads query = (Inr ''ai_ml'', 0))"
proof (intro conjI impI)
  assume "\<exists>pre post. lower query = pre @ ''hi'' @ post"
  then have "str_in ''hi'' (lower query)" by (simp add: str_in_iff)
  then have "any_keyword general_keywords (lower query)"
    by (rule any_keyword_mem [rotated]) (simp add: general_keywords_def)
  then show "route_query llm json_loads query = (Inr ''general'', 0)"
    by (simp add: route_query_def route_query_try_def Let_def)
next
  assume h: "(\<exists>pre post. lower query = pre @ ''ai'' @ post)
        \<and> \<not> any_keyword general_keywords (lower query)
        \<and> \<not> any_keyword medical_keywords (lower query)"
  then have "str_in ''ai'' (lower query)" by (simp add: str_in_iff)
  then have "any_keyword ai_keywords (lower query)"
    by (rule any_keyword_mem [rotated]) (simp add: ai_keywords_def)
  with h show "route_query llm json_loads query = (Inr ''ai_ml'', 0)"
    by (simp add: route_query_def route_query_try_def Let_def)
qed

theorem route_substring_not_word_witness:
  "lower ''Which one?'' = ''w'' @ ''hi'' @ ''ch one?''
   \<and> route_query (\<lambda>q. Inl (OtherException ''not called''))
        (\<lambda>s. Inl (JSONDecodeError ''not called'')) ''Which one?'' = (Inr ''general'', 0)
   \<and> lower ''Can you maintain the garden?'' = ''can you m'' @ ''ai'' @ ''ntain the garden?''
   \<and> \<not> any_keyword general_keywords (lower ''Can you maintain the garden?'')
   \<and> \<not> any_keyword medical_keywords (lower ''Can you maintain the garden?'')
   \<and> route_query (\<lambda>q. Inl (OtherException ''not called''))
        (\<lambda>s. Inl (JSONDecodeError ''not called'')) ''Can you maintain the garden?''
       = (Inr ''ai_ml'', 0)"
proof -
  have a: "lower ''Which one?'' = ''w'' @ ''hi'' @ ''ch one?''" by code_simp
  have b: "lower ''Can you maintain the garden?'' = ''can you m'' @ ''ai'' @ ''ntain the garden?''"
    by code_simp
  have g: "\<not> any_keyword general_keywords (lower ''Can you maintain the garden?'')"
    by code_simp
  have m: "\<not> any_keyword medical_keywords (lower ''Can you maintain the garden?'')"
    by code_simp
  have r1: "route_query (\<lambda>q. Inl (OtherException ''not called''))
        (\<lambda>s. Inl (JSONDecodeError ''not called'')) ''Which one?'' = (Inr ''general'', 0)"
    using route_substring_not_word [of "''Which one?''"] a by blast
  have r2: "route_query (\<lambda>q. Inl (OtherException ''not called''))
        (\<lambda>s. Inl (JSONDecodeError ''not called'')) ''Can you maintain the garden?''
       = (Inr ''ai_ml'', 0)"
    using route_substring_not_word [of "''Can you maintain the garden?''"] b g m by blast
  from a b g m r1 r2 show ?thesis by blast
qed

section \<open>Properties of the document index\<close>

lemma search_cases:
  "search sim svc agent query k threshold =
     (case vector_stores svc agent of
        Some (Some vs) \<Rightarrow>
          (case sim vs query k of
             Inr results \<Rightarrow> filter (\<lambda>(doc, score). threshold \<le> score) results
           | Inl e \<Rightarrow> [])
      | _ \<Rightarrow> [])"
  by (simp add: search_def search_try_def split: option.splits sum.splits)












text \<open>
  Claim C5. For an agent with no entry in the index dictionary, \<open>search\<close> returns the
  empty list for every query, \<open>k\<close> and threshold, and raises nothing; \<open>clear_store\<close>
  removes the agent's entry, also when removing a file fails, so a \<open>search\<close> after it
  returns the empty list. When removing files succeeds, neither of the agent's two index
  files is left.
\<close>

theorem search_without_index_is_empty:
  "(vector_stores svc agent = None \<longrightarrow> search sim svc agent query k threshold = [])
   \<and> vector_stores (clear_store unlink svc agent) agent = None
   \<and> search sim (clear_store unlink svc agent) agent query k threshold = []
   \<and> ((\<forall>file files. unlink file files = Inr (files - {file}))
        \<longrightarrow> agent @ ''.pkl'' \<notin> store_files (clear_store unlink svc agent)
            \<and> agent @ ''.faiss'' \<notin> store_files (clear_store unlink svc agent))"
proof (intro conjI impI)
  show "search sim svc agent query k threshold = []" if "vector_stores svc agent = None"
    using that by (simp add: search_cases)
  show gone: "vector_stores (clear_store unlink svc agent) agent = None"
    by (simp add: clear_store_def Let_def split: sum.splits)
  then show "search sim (clear_store unlink svc agent) agent query k threshold = []"
    by (simp add: search_cases)
next
  assume u: "\<forall>file files. unlink file files = Inr (files - {file})"
  then show "agent @ ''.pkl'' \<notin> store_files (clear_store unlink svc agent)"
    and "agent @ ''.faiss'' \<notin> store_files (clear_store unlink svc agent)"
    by (simp_all add: clear_store_def unlink_if_exists_def Let_def)
qed

theorem search_without_index_is_empty_witness:
  "vector_stores demo_service ''sales'' = None
   \<and> search demo_sim demo_service ''sales'' ''quota'' 5 (7 / 10) = []
   \<and> search demo_sim demo_service ''medical'' ''what is flu'' 5 (1 / 10)
       = [(chunk_rest, 1 / 4), (chunk_diet, 2)]
   \<and> search demo_sim (clear_store demo_unlink demo_service ''medical'') ''medical''
        ''what is flu'' 5 (1 / 10) = []
   \<and> (\<forall>file files. demo_unlink file files = Inr (files - {file}))
   \<and> ''medical'' @ ''.pkl'' \<notin> store_files (clear_store demo_unlink demo_service ''medical'')
   \<and> ''medical'' @ ''.faiss'' \<notin> store_files (clear_store demo_unlink demo_service ''medical'')"
proof -
  have n: "vector_stores demo_service ''sales'' = None" by (simp add: demo_service_def)
  have u: "\<forall>file files. demo_unlink file files = Inr (files - {file})"
    by (simp add: demo_unlink_def)
  have b: "search demo_sim demo_service ''medical'' ''what is flu'' 5 (1 / 10)
       = [(chunk_rest, 1 / 4), (chunk_diet, 2)]"
    by (simp add: search_cases demo_sim_def demo_service_def)
  note s = search_without_index_is_empty
    [where svc = demo_service and agent = "''sales''" and sim = demo_sim
       and query = "''quota''" and k = 5 and threshold = "7 / 10" and unlink = demo_unlink]
  note m = search_without_index_is_empty
    [where svc = demo_service and agent = "''medical''" and sim = demo_sim
       and query = "''what is flu''" and k = 5 and threshold = "1 / 10" and unlink = demo_unlink]
  from s n have a: "search demo_sim demo_service ''sales'' ''quota'' 5 (7 / 10) = []" by blast
  from m have c: "search demo_sim (clear_store demo_unlink demo_service ''medical'') ''medical''
        ''what is flu'' 5 (1 / 10) = []" by blast
  from m u have d: "''medical'' @ ''.pkl'' \<notin> store_files (clear_store demo_unlink demo_service ''medical'')
   \<and> ''medical'' @ ''.faiss'' \<notin> store_files (clear_store demo_unlink demo_service ''medical'')"
    by blast
  from n a b c u d show ?thesis by blast
qed

text \<open>
  Claim C9. \<open>remove_document\<close> returns the service as it was: the rebuild step changes
  nothing, so every later \<open>search\<close>, for any agent, query, \<open>k\<close> and threshold, returns what
  it returned before, chunks of the removed file included.
\<close>

theorem remove_document_changes_nothing:
  "remove_document svc agent filename = svc
   \<and> search sim (remove_document svc agent filename) agent' query k threshold
       = search sim svc agent' query k threshold"
  by (simp add: remove_document_def rebuild_store_without_file_def)

lemma remove_document_example:
  "search demo_sim (remove_document demo_service ''medical'' ''flu.txt'') ''medical''
      ''what is flu'' 5 (1 / 10) = [(chunk_rest, 1 / 4), (chunk_diet, 2)]
   \<and> map_of (metadata chunk_rest) ''filename'' = Some (MStr ''flu.txt'')"
  by (simp add: remove_document_def rebuild_store_without_file_def search_cases
        demo_sim_def demo_service_def chunk_rest_def)

section \<open>Properties of ingestion\<close>

lemma mapping_none_iff:
  "map_of loader_mapping ext = None \<longleftrightarrow> ext \<notin> set supported_extensions"
  by (simp add: map_of_eq_None_iff loader_mapping_def supported_extensions_def)

lemma load_single_not_found:
  "(\<exists>q. load_single_document env p = Inl (SourceNotFound q)) \<longleftrightarrow> \<not> path_exists env p"
  by (auto simp: load_single_document_def Let_def split: option.splits sum.splits)

lemma load_single_unsupported:
  assumes "path_exists env p"
  shows "(\<exists>ext. load_single_document env p = Inl (UnsupportedFormat ext))
           \<longleftrightarrow> lower (path_suffix env p) \<notin> set supported_extensions"
proof (cases "map_of loader_mapping (lower (path_suffix env p))")
  case None
  then have "load_single_document env p = Inl (UnsupportedFormat (lower (path_suffix env p)))"
    using assms by (simp add: load_single_document_def Let_def)
  with None show ?thesis using mapping_none_iff by auto
next
  case (Some f)
  then have "\<not> (\<exists>ext. load_single_document env p = Inl (UnsupportedFormat ext))"
    using assms by (simp add: load_single_document_def Let_def split: sum.splits)
  with Some show ?thesis using mapping_none_iff [of "lower (path_suffix env p)"] by auto
qed

lemma load_documents_loop_eq:
  "load_documents_loop env entries (documents, logged)
     = (documents @ concat (map (chunks_of_file env) (filter (path_is_file env) entries)),
        logged @ concat (map (log_of_file env) (filter (path_is_file env) entries)))"
proof (induction entries arbitrary: documents logged)
  case Nil
  show ?case by simp
next
  case (Cons file_path rest)
  show ?case
  proof (cases "path_is_file env file_path")
    case False
    then show ?thesis using Cons.IH by simp
  next
    case True
    show ?thesis
    proof (cases "load_single_document env file_path")
      case (Inl e)
      with True show ?thesis
        using Cons.IH [of documents "logged @ [(path_name env file_path, e)]"]
        by (simp add: chunks_of_file_def log_of_file_def)
    next
      case (Inr file_docs)
      with True show ?thesis
        using Cons.IH [of "documents @ file_docs" logged]
        by (simp add: chunks_of_file_def log_of_file_def)
    qed
  qed
qed

text \<open>
  Claim C8, as amended. \<open>load_single_document\<close> checks that the path exists before it looks
  at the extension: it fails with the not-found error exactly when the path does not
  exist, and, for a path that exists, with the unsupported-format error exactly when the
  lower-cased suffix is none of .pdf, .txt, .docx, .doc, .md, .csv. \<open>load_documents\<close> on
  an existing directory returns the chunks of every file that loads, in directory order,
  and logs and skips every file whose loading raises.
\<close>

theorem load_errors_and_batch:
  "((\<exists>q. load_single_document env p = Inl (SourceNotFound q)) \<longleftrightarrow> \<not> path_exists env p)
   \<and> (path_exists env p \<longrightarrow>
        ((\<exists>ext. load_single_document env p = Inl (UnsupportedFormat ext))
           \<longleftrightarrow> lower (path_suffix env p) \<notin> set supported_extensions))
   \<and> (path_exists env dir \<and> path_iterdir env dir = Inr entries \<longrightarrow>
        load_documents env dir
          = Inr (concat (map (chunks_of_file env) (filter (path_is_file env) entries)),
                 concat (map (log_of_file env) (filter (path_is_file env) entries))))"
proof (intro conjI impI)
  show "(\<exists>q. load_single_document env p = Inl (SourceNotFound q)) \<longleftrightarrow> \<not> path_exists env p"
    by (rule load_single_not_found)
  show "(\<exists>ext. load_single_document env p = Inl (UnsupportedFormat ext))
           \<longleftrightarrow> lower (path_suffix env p) \<notin> set supported_extensions"
    if "path_exists env p" using that by (rule load_single_unsupported)
  show "load_documents env dir
          = Inr (concat (map (chunks_of_file env) (filter (path_is_file env) entries)),
                 concat (map (log_of_file env) (filter (path_is_file env) entries)))"
    if "path_exists env dir \<and> path_iterdir env dir = Inr entries"
    using that by (simp add: load_documents_def load_documents_loop_eq)
qed

theorem load_errors_and_batch_witness:
  "path_exists demo_loader_env ''data/notes.xyz''
   \<and> lower (path_suffix demo_loader_env ''data/notes.xyz'') \<notin> set supported_extensions
   \<and> (\<exists>ext. load_single_document demo_loader_env ''data/notes.xyz''
              = Inl (UnsupportedFormat ext))
   \<and> path_exists demo_loader_env ''data''
   \<and> path_iterdir demo_loader_env ''data''
       = Inr [''data/flu.txt'', ''data/broken.pdf'', ''data/notes.xyz'', ''data/diet.md'']
   \<and> load_documents demo_loader_env ''data''
       = Inr ([\<lparr>page_content = ''Influenza is a viral infection.'',
                 metadata = [(''source'', MStr ''data/flu.txt''), (''filename'', MStr ''flu.txt''),
                             (''file_type'', MStr ''.txt''), (''chunk_index'', MInt 0),
                             (''total_chunks'', MInt 1)]\<rparr>,
               \<lparr>page_content = ''A balanced diet has many vegetables.'',
                 metadata = [(''source'', MStr ''data/diet.md''), (''filename'', MStr ''diet.md''),
                             (''file_type'', MStr ''.md''), (''chunk_index'', MInt 0),
                             (''total_chunks'', MInt 1)]\<rparr>],
              [(''broken.pdf'', ProcessingError (OtherException ''cannot parse'')),
               (''notes.xyz'', UnsupportedFormat ''.xyz'')])"
proof -
  have e: "path_exists demo_loader_env ''data/notes.xyz''" by code_simp
  have x: "lower (path_suffix demo_loader_env ''data/notes.xyz'') \<notin> set supported_extensions"
    by code_simp
  have d: "path_exists demo_loader_env ''data''" by code_simp
  have i: "path_iterdir demo_loader_env ''data''
       = Inr [''data/flu.txt'', ''data/broken.pdf'', ''data/notes.xyz'', ''data/diet.md'']"
    by code_simp
  have c: "concat (map (chunks_of_file demo_loader_env) (filter (path_is_file demo_loader_env)
             [''data/flu.txt'', ''data/broken.pdf'', ''data/notes.xyz'', ''data/diet.md'']))
       = [\<lparr>page_content = ''Influenza is a viral infection.'',
                 metadata = [(''source'', MStr ''data/flu.txt''), (''filename'', MStr ''flu.txt''),
                             (''file_type'', MStr ''.txt''), (''chunk_index'', MInt 0),
                             (''total_chunks'', MInt 1)]\<rparr>,
               \<lparr>page_content = ''A balanced diet has many vegetables.'',
                 metadata = [(''source'', MStr ''data/diet.md''), (''filename'', MStr ''diet.md''),
                             (''file_type'', MStr ''.md''), (''chunk_index'', MInt 0),
                             (''total_chunks'', MInt 1)]\<rparr>]"
    by code_simp
  have l: "concat (map (log_of_file demo_loader_env) (filter (path_is_file demo_loader_env)
             [''data/flu.txt'', ''data/broken.pdf'', ''data/notes.xyz'', ''data/diet.md'']))
       = [(''broken.pdf'', ProcessingError (OtherException ''cannot parse'')),
          (''notes.xyz'', UnsupportedFormat ''.xyz'')]"
    by code_simp
  note t = load_errors_and_batch
    [where env = demo_loader_env and p = "''data/notes.xyz''" and dir = "''data''"
       and entries = "[''data/flu.txt'', ''data/broken.pdf'', ''data/notes.xyz'', ''data/diet.md'']"]
  from t e x have u: "\<exists>ext. load_single_document demo_loader_env ''data/notes.xyz''
              = Inl (UnsupportedFormat ext)" by blast
  from t d i have "load_documents demo_loader_env ''data''
          = Inr (concat (map (chunks_of_file demo_loader_env) (filter (path_is_file demo_loader_env)
                   [''data/flu.txt'', ''data/broken.pdf'', ''data/notes.xyz'', ''data/diet.md''])),
                 concat (map (log_of_file demo_loader_env) (filter (path_is_file demo_loader_env)
                   [''data/flu.txt'', ''data/broken.pdf'', ''data/notes.xyz'', ''data/diet.md''])))"
    by blast
  then have b: "load_documents demo_loader_env ''data''
       = Inr ([\<lparr>page_content = ''Influenza is a viral infection.'',
                 metadata = [(''source'', MStr ''data/flu.txt''), (''filename'', MStr ''flu.txt''),
                             (''file_type'', MStr ''.txt''), (''chunk_index'', MInt 0),
                             (''total_chunks'', MInt 1)]\<rparr>,
               \<lparr>page_content = ''A balanced diet has many vegetables.'',
                 metadata = [(''source'', MStr ''data/diet.md''), (''filename'', MStr ''diet.md''),
                             (''file_type'', MStr ''.md''), (''chunk_index'', MInt 0),
                             (''total_chunks'', MInt 1)]\<rparr>],
              [(''broken.pdf'', ProcessingError (OtherException ''cannot parse'')),
               (''notes.xyz'', UnsupportedFormat ''.xyz'')])"
    unfolding c l .
  from e x u d i b show ?thesis by blast
qed

text \<open>
  The claim as first stated fails for a path that does not exist and has an unsupported
  suffix: the error is the not-found one.
\<close>

theorem unsupported_format_counterexample:
  "lower (path_suffix demo_loader_env ''missing.xyz'') \<notin> set supported_extensions
   \<and> load_single_document demo_loader_env ''missing.xyz''
       = Inl (SourceNotFound ''missing.xyz'')"
  by code_simp

section \<open>Properties of a chat turn\<close>

lemma route_query_valid:
  assumes "route_query l j query = (Inr agent, calls)"
  shows "agent \<in> set valid_agents"
proof (cases "first_hit query")
  case None
  show ?thesis
  proof (cases "l query")
    case (Inl e)
    with None assms show ?thesis
      using route_query_slow [of query l j] by (simp add: valid_agents_def)
  next
    case (Inr c)
    show ?thesis
    proof (cases "parse_routing_response j c")
      case (Inl e)
      with None Inr assms show ?thesis
        using route_query_slow [of query l j] by (simp add: valid_agents_def)
    next
      case r: (Inr a)
      with None Inr assms have "a = agent"
        using route_query_slow [of query l j] by simp
      with r show ?thesis using parse_routing_response_valid [of j c a] by simp
    qed
  qed
next
  case (Some hit)
  then have "route_query l j query = (Inr (fst hit), 0)"
    using route_query_fast [of query "fst hit" "snd hit" l j] by simp
  with assms have a: "agent = fst hit" by simp
  from Some have "fst hit \<in> set valid_agents"
    by (auto simp: first_hit_cases Let_def valid_agents_def split: if_splits)
  with a show ?thesis by simp
qed

lemma factory_agents_valid: "factory_agents = valid_agents"
  by (simp add: factory_agents_def valid_agents_def)

lemma select_agent_override:
  "req_agent_override request = Some a \<Longrightarrow> a \<noteq> [] \<Longrightarrow> select_agent env request = (a, [])"
  by (simp add: select_agent_def truthy_def)

lemma select_agent_routed:
  assumes "\<not> truthy (req_agent_override request)"
  shows "\<exists>agent calls.
           route_query (env_llm env) (env_json_loads env) (req_message request) = (Inr agent, calls)
           \<and> agent \<in> set factory_agents
           \<and> select_agent env request = (agent, [RouteQuery (req_message request)])"
proof -
  obtain agent calls where
    r: "route_query (env_llm env) (env_json_loads env) (req_message request) = (Inr agent, calls)"
    using route_query_returns [of "env_llm env" "env_json_loads env" "req_message request"]
    by blast
  then have "agent \<in> set factory_agents"
    using route_query_valid [of "env_llm env" "env_json_loads env" "req_message request" agent calls]
    by (simp add: factory_agents_valid)
  moreover from r assms
  have "select_agent env request = (agent, [RouteQuery (req_message request)])"
    by (simp add: select_agent_def)
  ultimately show ?thesis using r by blast
qed

text \<open>\<open>process_query\<close> writes to the memory only after the reasoning step has answered.\<close>

lemma process_query_memory:
  "snd (process_query env a q mem inc)
     = (case fst (process_query env a q mem inc) of
          Inl e \<Rightarrow> mem
        | Inr r \<Rightarrow> mem @ [HumanMessage q, AIMessage (res_response r)])"
  by (simp add: process_query_def Let_def split: sum.splits)

text \<open>The three components of a turn, spelled out.\<close>

lemma send_message_unknown_agent:
  assumes "select_agent env request = (a, routed)" and "a \<notin> set factory_agents"
  shows "send_message env sessions request
     = (Inl (HTTPException 500 (''Failed to process message: '' @ ''Unknown agent: '' @ a)),
        sessions(resolve_session_id env request \<mapsto>
                   track_agent_usage a (open_session env sessions (resolve_session_id env request))),
        routed)"
  using assms by (simp add: send_message_def get_agent_def Let_def)

lemma send_message_known_agent:
  assumes "select_agent env request = (a, routed)" and "a \<in> set factory_agents"
    and "process_query env a (req_message request)
           (memory (open_session env sessions (resolve_session_id env request)))
           (req_include_sources request) = (outcome, mem)"
  shows "send_message env sessions request
     = ((case outcome of
           Inl e \<Rightarrow> Inl (HTTPException 500 (''Failed to process message: '' @ exception_str e))
         | Inr result \<Rightarrow>
             Inr \<lparr>resp_response = res_response result,
                  resp_session_id = resolve_session_id env request,
                  resp_agent_used = a,
                  resp_sources = (if req_include_sources request then res_sources result
                                  else None)\<rparr>),
        sessions(resolve_session_id env request \<mapsto>
                   (track_agent_usage a
                      (open_session env sessions (resolve_session_id env request)))
                   \<lparr>memory := mem\<rparr>),
        routed @ [ProcessQuery a (req_message request)])"
proof -
  have m: "memory (track_agent_usage a (open_session env sessions (resolve_session_id env request)))
             = memory (open_session env sessions (resolve_session_id env request))"
    by (simp add: track_agent_usage_def)
  show ?thesis
    using assms by (cases outcome) (simp_all add: send_message_def get_agent_def Let_def m)
qed

lemma track_agent_usage_fields:
  "memory (track_agent_usage a s) = memory s"
  "message_count (track_agent_usage a s) = message_count s"
  "created_at (track_agent_usage a s) = created_at s"
  by (simp_all add: track_agent_usage_def)

lemma send_message_session_entry:
  "\<exists>s. fst (snd (send_message env sessions request)) (resolve_session_id env request) = Some s
       \<and> message_count s
           = message_count (open_session env sessions (resolve_session_id env request))
       \<and> agents_used s
           = agents_used (track_agent_usage (fst (select_agent env request))
                            (open_session env sessions (resolve_session_id env request)))"
proof -
  obtain a routed where sel: "select_agent env request = (a, routed)"
    by (cases "select_agent env request")
  show ?thesis
  proof (cases "a \<in> set factory_agents")
    case False
    with sel show ?thesis
      using send_message_unknown_agent [of env request a routed sessions]
      by (simp add: track_agent_usage_fields)
  next
    case True
    obtain outcome mem where
      "process_query env a (req_message request)
         (memory (open_session env sessions (resolve_session_id env request)))
         (req_include_sources request) = (outcome, mem)"
      by (cases "process_query env a (req_message request)
                   (memory (open_session env sessions (resolve_session_id env request)))
                   (req_include_sources request)")
    with sel True show ?thesis
      using send_message_known_agent [of env request a routed sessions outcome mem]
      by (simp add: track_agent_usage_fields)
  qed
qed

lemma send_message_response_fields:
  assumes "fst (send_message env sessions request) = Inr resp"
  shows "resp_session_id resp = resolve_session_id env request
         \<and> resp_agent_used resp = fst (select_agent env request)"
proof -
  obtain a routed where sel: "select_agent env request = (a, routed)"
    by (cases "select_agent env request")
  show ?thesis
  proof (cases "a \<in> set factory_agents")
    case False
    with sel assms show ?thesis
      using send_message_unknown_agent [of env request a routed sessions] by simp
  next
    case True
    obtain outcome mem where
      p: "process_query env a (req_message request)
         (memory (open_session env sessions (resolve_session_id env request)))
         (req_include_sources request) = (outcome, mem)"
      by (cases "process_query env a (req_message request)
                   (memory (open_session env sessions (resolve_session_id env request)))
                   (req_include_sources request)")
    show ?thesis
    proof (cases outcome)
      case (Inl e)
      with sel True p assms show ?thesis
        using send_message_known_agent [of env request a routed sessions outcome mem] by simp
    next
      case (Inr result)
      with sel True p assms show ?thesis
        using send_message_known_agent [of env request a routed sessions outcome mem] by auto
    qed
  qed
qed

lemma send_message_events:
  assumes "select_agent env request = (a, routed)"
  shows "snd (snd (send_message env sessions request))
           = (if a \<in> set factory_agents then routed @ [ProcessQuery a (req_message request)]
              else routed)"
proof (cases "a \<in> set factory_agents")
  case False
  with assms show ?thesis
    using send_message_unknown_agent [of env request a routed sessions] by simp
next
  case True
  obtain outcome mem where
    "process_query env a (req_message request)
       (memory (open_session env sessions (resolve_session_id env request)))
       (req_include_sources request) = (outcome, mem)"
    by (cases "process_query env a (req_message request)
                 (memory (open_session env sessions (resolve_session_id env request)))
                 (req_include_sources request)")
  with assms True show ?thesis
    using send_message_known_agent [of env request a routed sessions outcome mem] by simp
qed

lemma override_request_fields:
  "req_message (override_request a) = ''I want to buy a house''"
  "req_session_id (override_request a) = Some ''s1''"
  "req_agent_override (override_request a) = Some a"
  "req_include_sources (override_request a) = False"
  by (simp_all add: override_request_def)

lemma weather_request_fields:
  "req_message (weather_request sid) = ''What is the weather in Dhaka?''"
  "req_session_id (weather_request sid) = sid"
  "req_agent_override (weather_request sid) = None"
  "req_include_sources (weather_request sid) = True"
  by (simp_all add: weather_request_def)

lemma override_request_session:
  "resolve_session_id env (override_request a) = ''s1''"
  by (simp add: resolve_session_id_def truthy_def override_request_fields)

lemma failing_process_query:
  "fst (process_query failing_chat_env a q mem inc) = Inl (OtherException ''model call failed'')"
  by (simp add: process_query_def failing_chat_env_def Let_def)

lemma demo_sessions_s1:
  "demo_sessions ''s1''
     = Some \<lparr>memory = [HumanMessage ''hello'', AIMessage ''answer from general''],
             created_at = ''2023-12-31T23:00:00'', message_count = 1,
             agents_used = [''general'']\<rparr>"
  by (simp add: demo_sessions_def)

lemma weather_is_general:
  "route_query l j ''What is the weather in Dhaka?'' = (Inr ''general'', 0)"
proof -
  have "any_keyword general_keywords (lower ''What is the weather in Dhaka?'')"
    by code_simp
  then have "first_hit ''What is the weather in Dhaka?'' = Some (''general'', general_keywords)"
    by (simp add: first_hit_cases)
  then show ?thesis by (rule route_query_fast)
qed

text \<open>
  Claim C4, as amended. On a turn whose agent fails in \<open>process_query\<close>, the caller gets an
  HTTP 500 error and the conversation history of the session is as before: nothing is
  appended, since \<open>process_query\<close> appends the user query and then the answer only after the
  reasoning step has answered. The bookkeeping of the session was updated before the agent
  ran: its message count is one higher and the selected agent is in \<open>agents_used\<close>; a
  session that did not exist has been created. No other session changes.
\<close>

theorem failed_turn_session_state:
  assumes "select_agent env request = (a, routed)" and "a \<in> set factory_agents"
    and "sid = resolve_session_id env request"
    and "fst (process_query env a (req_message request)
                (memory (open_session env sessions sid)) (req_include_sources request)) = Inl e"
  shows "fst (send_message env sessions request)
           = Inl (HTTPException 500 (''Failed to process message: '' @ exception_str e))
    \<and> (\<forall>s0. sessions sid = Some s0 \<longrightarrow>
          fst (snd (send_message env sessions request)) sid
            = Some (s0\<lparr>message_count := message_count s0 + 1,
                        agents_used := (if a \<in> set (agents_used s0) then agents_used s0
                                        else agents_used s0 @ [a])\<rparr>))
    \<and> (sessions sid = None \<longrightarrow>
          fst (snd (send_message env sessions request)) sid
            = Some \<lparr>memory = [], created_at = now env, message_count = 1, agents_used = [a]\<rparr>)
    \<and> (\<forall>other. other \<noteq> sid \<longrightarrow>
          fst (snd (send_message env sessions request)) other = sessions other)
    \<and> (\<forall>q mem inc. snd (process_query env a q mem inc)
          = (case fst (process_query env a q mem inc) of
               Inl e \<Rightarrow> mem
             | Inr r \<Rightarrow> mem @ [HumanMessage q, AIMessage (res_response r)]))"
proof -
  let ?mem = "memory (open_session env sessions sid)"
  have p: "process_query env a (req_message request) ?mem (req_include_sources request)
             = (Inl e, ?mem)"
    using assms(4)
      process_query_memory [of env a "req_message request" ?mem "req_include_sources request"]
    by (cases "process_query env a (req_message request) ?mem (req_include_sources request)")
       simp
  have sm: "send_message env sessions request
     = (Inl (HTTPException 500 (''Failed to process message: '' @ exception_str e)),
        sessions(sid \<mapsto> (track_agent_usage a (open_session env sessions sid))\<lparr>memory := ?mem\<rparr>),
        routed @ [ProcessQuery a (req_message request)])"
    using send_message_known_agent [of env request a routed sessions "Inl e" ?mem]
      assms(1,2) p unfolding assms(3) by simp
  have r: "fst (send_message env sessions request)
           = Inl (HTTPException 500 (''Failed to process message: '' @ exception_str e))"
    by (simp add: sm)
  have ex: "\<forall>s0. sessions sid = Some s0 \<longrightarrow>
          fst (snd (send_message env sessions request)) sid
            = Some (s0\<lparr>message_count := message_count s0 + 1,
                        agents_used := (if a \<in> set (agents_used s0) then agents_used s0
                                        else agents_used s0 @ [a])\<rparr>)"
    by (simp add: sm open_session_def track_agent_usage_def)
  have nw: "sessions sid = None \<longrightarrow>
          fst (snd (send_message env sessions request)) sid
            = Some \<lparr>memory = [], created_at = now env, message_count = 1, agents_used = [a]\<rparr>"
    by (simp add: sm open_session_def track_agent_usage_def)
  have ot: "\<forall>other. other \<noteq> sid \<longrightarrow>
          fst (snd (send_message env sessions request)) other = sessions other"
    by (simp add: sm)
  have pm: "\<forall>q mem inc. snd (process_query env a q mem inc)
          = (case fst (process_query env a q mem inc) of
               Inl e \<Rightarrow> mem
             | Inr r \<Rightarrow> mem @ [HumanMessage q, AIMessage (res_response r)])"
    using process_query_memory [of env a] by blast
  from r ex nw ot pm show ?thesis by blast
qed

theorem failed_turn_session_state_witness:
  "select_agent failing_chat_env (override_request ''medical'') = (''medical'', [])
   \<and> ''medical'' \<in> set factory_agents
   \<and> ''s1'' = resolve_session_id failing_chat_env (override_request ''medical'')
   \<and> fst (process_query failing_chat_env ''medical''
             (req_message (override_request ''medical''))
             (memory (open_session failing_chat_env demo_sessions ''s1''))
             (req_include_sources (override_request ''medical'')))
       = Inl (OtherException ''model call failed'')
   \<and> fst (send_message failing_chat_env demo_sessions (override_request ''medical''))
       = Inl (HTTPException 500 (''Failed to process message: '' @ ''model call failed''))
   \<and> fst (snd (send_message failing_chat_env demo_sessions (override_request ''medical''))) ''s1''
       = Some \<lparr>memory = [HumanMessage ''hello'', AIMessage ''answer from general''],
               created_at = ''2023-12-31T23:00:00'', message_count = 2,
               agents_used = [''general'', ''medical'']\<rparr>
   \<and> fst (snd (send_message failing_chat_env Map.empty (override_request ''medical''))) ''s1''
       = Some \<lparr>memory = [], created_at = now failing_chat_env, message_count = 1,
               agents_used = [''medical'']\<rparr>
   \<and> fst (snd (send_message failing_chat_env demo_sessions (override_request ''medical''))) ''s2''
       = demo_sessions ''s2''"
proof -
  have sel: "select_agent failing_chat_env (override_request ''medical'') = (''medical'', [])"
    by (rule select_agent_override) (simp_all add: override_request_fields)
  have mem: "''medical'' \<in> set factory_agents" by (simp add: factory_agents_def)
  have sid: "''s1'' = resolve_session_id failing_chat_env (override_request ''medical'')"
    by (simp add: override_request_session)
  have pq: "fst (process_query failing_chat_env ''medical''
             (req_message (override_request ''medical''))
             (memory (open_session failing_chat_env demo_sessions ''s1''))
             (req_include_sources (override_request ''medical'')))
       = Inl (OtherException ''model call failed'')"
    by (rule failing_process_query)
  have pq0: "fst (process_query failing_chat_env ''medical''
             (req_message (override_request ''medical''))
             (memory (open_session failing_chat_env Map.empty ''s1''))
             (req_include_sources (override_request ''medical'')))
       = Inl (OtherException ''model call failed'')"
    by (rule failing_process_query)
  note t = failed_turn_session_state
    [where env = failing_chat_env and request = "override_request ''medical''"
       and a = "''medical''" and routed = "[]" and sid = "''s1''"
       and sessions = demo_sessions and e = "OtherException ''model call failed''",
     OF sel mem sid pq]
  note t0 = failed_turn_session_state
    [where env = failing_chat_env and request = "override_request ''medical''"
       and a = "''medical''" and routed = "[]" and sid = "''s1''"
       and sessions = Map.empty and e = "OtherException ''model call failed''",
     OF sel mem sid pq0]
  from t have r: "fst (send_message failing_chat_env demo_sessions (override_request ''medical''))
       = Inl (HTTPException 500 (''Failed to process message: '' @ ''model call failed''))"
    by simp
  from t have "\<forall>s0. demo_sessions ''s1'' = Some s0 \<longrightarrow>
      fst (snd (send_message failing_chat_env demo_sessions (override_request ''medical''))) ''s1''
        = Some (s0\<lparr>message_count := message_count s0 + 1,
                    agents_used := (if ''medical'' \<in> set (agents_used s0) then agents_used s0
                                    else agents_used s0 @ [''medical''])\<rparr>)"
    by blast
  with demo_sessions_s1
  have s: "fst (snd (send_message failing_chat_env demo_sessions (override_request ''medical''))) ''s1''
       = Some \<lparr>memory = [HumanMessage ''hello'', AIMessage ''answer from general''],
               created_at = ''2023-12-31T23:00:00'', message_count = 2,
               agents_used = [''general'', ''medical'']\<rparr>"
    by simp
  from t0 have n: "fst (snd (send_message failing_chat_env Map.empty (override_request ''medical''))) ''s1''
       = Some \<lparr>memory = [], created_at = now failing_chat_env, message_count = 1,
               agents_used = [''medical'']\<rparr>"
    by simp
  from t have "\<forall>other. other \<noteq> ''s1'' \<longrightarrow>
      fst (snd (send_message failing_chat_env demo_sessions (override_request ''medical''))) other
        = demo_sessions other"
    by blast
  then have o: "fst (snd (send_message failing_chat_env demo_sessions (override_request ''medical''))) ''s2''
       = demo_sessions ''s2''"
    by simp
  from sel mem sid pq r s n o show ?thesis by blast
qed

text \<open>
  The claim as first stated fails on the bookkeeping: with a model call that raises, a turn
  on session \<open>s1\<close> leaves its history as it was and its count and agents changed.
\<close>

theorem failed_turn_counterexample:
  "fst (process_query failing_chat_env ''medical'' ''I want to buy a house''
          [HumanMessage ''hello'', AIMessage ''answer from general''] False)
     = Inl (OtherException ''model call failed'')
   \<and> demo_sessions ''s1''
       = Some \<lparr>memory = [HumanMessage ''hello'', AIMessage ''answer from general''],
               created_at = ''2023-12-31T23:00:00'', message_count = 1,
               agents_used = [''general'']\<rparr>
   \<and> fst (send_message failing_chat_env demo_sessions (override_request ''medical''))
       = Inl (HTTPException 500 ''Failed to process message: model call failed'')
   \<and> fst (snd (send_message failing_chat_env demo_sessions (override_request ''medical''))) ''s1''
       = Some \<lparr>memory = [HumanMessage ''hello'', AIMessage ''answer from general''],
               created_at = ''2023-12-31T23:00:00'', message_count = 2,
               agents_used = [''general'', ''medical'']\<rparr>"
proof -
  have sel: "select_agent failing_chat_env (override_request ''medical'') = (''medical'', [])"
    by (rule select_agent_override) (simp_all add: override_request_fields)
  have mem: "''medical'' \<in> set factory_agents" by (simp add: factory_agents_def)
  have p: "process_query failing_chat_env ''medical''
             (req_message (override_request ''medical''))
             (memory (open_session failing_chat_env demo_sessions
                        (resolve_session_id failing_chat_env (override_request ''medical''))))
             (req_include_sources (override_request ''medical''))
       = (Inl (OtherException ''model call failed''),
          [HumanMessage ''hello'', AIMessage ''answer from general''])"
    by (simp add: process_query_def failing_chat_env_def Let_def override_request_session
          open_session_def demo_sessions_def)
  have sm: "send_message failing_chat_env demo_sessions (override_request ''medical'')
     = (Inl (HTTPException 500 (''Failed to process message: ''
               @ exception_str (OtherException ''model call failed''))),
        demo_sessions(''s1'' \<mapsto>
          (track_agent_usage ''medical'' (open_session failing_chat_env demo_sessions ''s1''))
          \<lparr>memory := [HumanMessage ''hello'', AIMessage ''answer from general'']\<rparr>),
        [] @ [ProcessQuery ''medical'' (req_message (override_request ''medical''))])"
    using send_message_known_agent [OF sel mem p] by (simp add: override_request_session)
  have a: "fst (process_query failing_chat_env ''medical'' ''I want to buy a house''
          [HumanMessage ''hello'', AIMessage ''answer from general''] False)
     = Inl (OtherException ''model call failed'')"
    by (rule failing_process_query)
  have c: "fst (send_message failing_chat_env demo_sessions (override_request ''medical''))
       = Inl (HTTPException 500 ''Failed to process message: model call failed'')"
    unfolding sm by simp
  have d: "fst (snd (send_message failing_chat_env demo_sessions (override_request ''medical''))) ''s1''
       = Some \<lparr>memory = [HumanMessage ''hello'', AIMessage ''answer from general''],
               created_at = ''2023-12-31T23:00:00'', message_count = 2,
               agents_used = [''general'', ''medical'']\<rparr>"
    unfolding sm by (simp add: open_session_def track_agent_usage_def demo_sessions_def)
  from a demo_sessions_s1 c d show ?thesis by blast
qed

text \<open>
  Claim C6, as amended. An override that is a non-empty string is used as the agent of the
  turn and the router is not called. When it names one of the six agents the query is
  dispatched to that agent, which the response reports. When it names no agent, nothing is
  dispatched and the turn fails with HTTP 500, "Unknown agent"; the router is not called
  then either. When the override is absent or the empty string, the router is called on
  the message, once, and the query is dispatched to the agent it returns.
\<close>

theorem agent_override_resolution:
  "(req_agent_override request = Some a \<and> a \<noteq> [] \<and> a \<in> set factory_agents \<longrightarrow>
      snd (snd (send_message env sessions request)) = [ProcessQuery a (req_message request)]
      \<and> (\<forall>resp. fst (send_message env sessions request) = Inr resp
            \<longrightarrow> resp_agent_used resp = a))
   \<and> (req_agent_override request = Some a \<and> a \<noteq> [] \<and> a \<notin> set factory_agents \<longrightarrow>
        snd (snd (send_message env sessions request)) = []
        \<and> fst (send_message env sessions request)
            = Inl (HTTPException 500 (''Failed to process message: '' @ ''Unknown agent: '' @ a)))
   \<and> (req_agent_override request = None \<or> req_agent_override request = Some [] \<longrightarrow>
        (\<exists>agent calls.
            route_query (env_llm env) (env_json_loads env) (req_message request)
              = (Inr agent, calls)
            \<and> snd (snd (send_message env sessions request))
                = [RouteQuery (req_message request), ProcessQuery agent (req_message request)]))"
proof (intro conjI impI)
  assume h: "req_agent_override request = Some a \<and> a \<noteq> [] \<and> a \<in> set factory_agents"
  then have sel: "select_agent env request = (a, [])" by (simp add: select_agent_override)
  from h show "snd (snd (send_message env sessions request))
                 = [ProcessQuery a (req_message request)]"
    using send_message_events [OF sel, of sessions] by simp
  show "\<forall>resp. fst (send_message env sessions request) = Inr resp
            \<longrightarrow> resp_agent_used resp = a"
    using send_message_response_fields [of env sessions request] sel by simp
next
  assume h: "req_agent_override request = Some a \<and> a \<noteq> [] \<and> a \<notin> set factory_agents"
  then have sel: "select_agent env request = (a, [])" by (simp add: select_agent_override)
  from h have "a \<notin> set factory_agents" by simp
  note u = send_message_unknown_agent [OF sel this, of sessions]
  show "snd (snd (send_message env sessions request)) = []" unfolding u by simp
  show "fst (send_message env sessions request)
            = Inl (HTTPException 500 (''Failed to process message: '' @ ''Unknown agent: '' @ a))"
    unfolding u by simp
next
  assume "req_agent_override request = None \<or> req_agent_override request = Some []"
  then have "\<not> truthy (req_agent_override request)" by (auto simp: truthy_def)
  then obtain agent calls where
    r: "route_query (env_llm env) (env_json_loads env) (req_message request) = (Inr agent, calls)"
    and m: "agent \<in> set factory_agents"
    and sel: "select_agent env request = (agent, [RouteQuery (req_message request)])"
    using select_agent_routed [of request env] by blast
  from m have "snd (snd (send_message env sessions request))
      = [RouteQuery (req_message request), ProcessQuery agent (req_message request)]"
    using send_message_events [OF sel, of sessions] by simp
  with r show "\<exists>agent calls.
            route_query (env_llm env) (env_json_loads env) (req_message request)
              = (Inr agent, calls)
            \<and> snd (snd (send_message env sessions request))
                = [RouteQuery (req_message request), ProcessQuery agent (req_message request)]"
    by blast
qed

theorem agent_override_resolution_witness:
  "req_agent_override (override_request ''medical'') = Some ''medical''
   \<and> ''medical'' \<in> set factory_agents
   \<and> snd (snd (send_message demo_chat_env demo_sessions (override_request ''medical'')))
       = [ProcessQuery ''medical'' ''I want to buy a house'']
   \<and> map_sum id resp_agent_used
        (fst (send_message demo_chat_env demo_sessions (override_request ''medical'')))
       = Inr ''medical''
   \<and> req_agent_override (override_request ''legal'') = Some ''legal''
   \<and> ''legal'' \<notin> set factory_agents
   \<and> snd (snd (send_message demo_chat_env demo_sessions (override_request ''legal''))) = []
   \<and> fst (send_message demo_chat_env demo_sessions (override_request ''legal''))
       = Inl (HTTPException 500 (''Failed to process message: '' @ ''Unknown agent: '' @ ''legal''))
   \<and> req_agent_override (weather_request (Some ''s1'')) = None
   \<and> route_query (env_llm demo_chat_env) (env_json_loads demo_chat_env)
        ''What is the weather in Dhaka?'' = (Inr ''general'', 0)
   \<and> snd (snd (send_message demo_chat_env demo_sessions (weather_request (Some ''s1''))))
       = [RouteQuery ''What is the weather in Dhaka?'',
          ProcessQuery ''general'' ''What is the weather in Dhaka?'']"
proof -
  note tm = agent_override_resolution
    [where request = "override_request ''medical''" and a = "''medical''"
       and env = demo_chat_env and sessions = demo_sessions]
  note tl = agent_override_resolution
    [where request = "override_request ''legal''" and a = "''legal''"
       and env = demo_chat_env and sessions = demo_sessions]
  note tw = agent_override_resolution
    [where request = "weather_request (Some ''s1'')" and a = "''medical''"
       and env = demo_chat_env and sessions = demo_sessions]
  have om: "req_agent_override (override_request ''medical'') = Some ''medical''"
    by (simp add: override_request_fields)
  have ol: "req_agent_override (override_request ''legal'') = Some ''legal''"
    by (simp add: override_request_fields)
  have ow: "req_agent_override (weather_request (Some ''s1'')) = None"
    by (simp add: weather_request_fields)
  have mm: "''medical'' \<in> set factory_agents" by (simp add: factory_agents_def)
  have ml: "''legal'' \<notin> set factory_agents" by (simp add: factory_agents_def)
  have ne: "''medical'' \<noteq> []" "''legal'' \<noteq> []" by simp_all
  from tm om mm ne(1)
  have m1: "snd (snd (send_message demo_chat_env demo_sessions (override_request ''medical'')))
       = [ProcessQuery ''medical'' (req_message (override_request ''medical''))]"
    and m2: "\<forall>resp. fst (send_message demo_chat_env demo_sessions (override_request ''medical''))
                  = Inr resp \<longrightarrow> resp_agent_used resp = ''medical''"
    by blast+
  have ev: "\<exists>resp. fst (send_message demo_chat_env demo_sessions (override_request ''medical''))
                  = Inr resp"
    by (simp add: send_message_def Let_def select_agent_def truthy_def get_agent_def
          factory_agents_def process_query_def demo_chat_env_def override_request_fields
          track_agent_usage_def)
  with m2 have m3: "map_sum id resp_agent_used
        (fst (send_message demo_chat_env demo_sessions (override_request ''medical'')))
       = Inr ''medical''"
    by auto
  from tl ol ml ne(2)
  have l1: "snd (snd (send_message demo_chat_env demo_sessions (override_request ''legal''))) = []"
    and l2: "fst (send_message demo_chat_env demo_sessions (override_request ''legal''))
       = Inl (HTTPException 500 (''Failed to process message: '' @ ''Unknown agent: '' @ ''legal''))"
    by blast+
  have rq: "route_query (env_llm demo_chat_env) (env_json_loads demo_chat_env)
        ''What is the weather in Dhaka?'' = (Inr ''general'', 0)"
    by (rule weather_is_general)
  from tw ow obtain agent calls where
    "route_query (env_llm demo_chat_env) (env_json_loads demo_chat_env)
        (req_message (weather_request (Some ''s1''))) = (Inr agent, calls)"
    and w0: "snd (snd (send_message demo_chat_env demo_sessions (weather_request (Some ''s1''))))
       = [RouteQuery (req_message (weather_request (Some ''s1''))),
          ProcessQuery agent (req_message (weather_request (Some ''s1'')))]"
    by blast
  with rq have "agent = ''general''" by (simp add: weather_request_fields)
  with w0 have w1: "snd (snd (send_message demo_chat_env demo_sessions (weather_request (Some ''s1''))))
       = [RouteQuery ''What is the weather in Dhaka?'',
          ProcessQuery ''general'' ''What is the weather in Dhaka?'']"
    by (simp add: weather_request_fields)
  from m1 have m1': "snd (snd (send_message demo_chat_env demo_sessions (override_request ''medical'')))
       = [ProcessQuery ''medical'' ''I want to buy a house'']"
    by (simp add: override_request_fields)
  from om mm m1' m3 ol ml l1 l2 ow rq w1 show ?thesis by blast
qed

text \<open>
  The claim as first stated fails for an override that names no agent: the router is not
  consulted and the turn ends in an error.
\<close>

theorem invalid_override_counterexample:
  "req_agent_override (override_request ''legal'') = Some ''legal''
   \<and> ''legal'' \<notin> set valid_agents
   \<and> snd (snd (send_message demo_chat_env demo_sessions (override_request ''legal''))) = []
   \<and> fst (send_message demo_chat_env demo_sessions (override_request ''legal''))
       = Inl (HTTPException 500 ''Failed to process message: Unknown agent: legal'')"
proof -
  have sel: "select_agent demo_chat_env (override_request ''legal'') = (''legal'', [])"
    by (rule select_agent_override) (simp_all add: override_request_fields)
  have ml: "''legal'' \<notin> set factory_agents" by (simp add: factory_agents_def)
  note u = send_message_unknown_agent [OF sel ml, of demo_sessions]
  have a: "snd (snd (send_message demo_chat_env demo_sessions (override_request ''legal''))) = []"
    unfolding u by simp
  have b: "fst (send_message demo_chat_env demo_sessions (override_request ''legal''))
       = Inl (HTTPException 500 ''Failed to process message: Unknown agent: legal'')"
    unfolding u by simp
  have c: "''legal'' \<notin> set valid_agents" by (simp add: valid_agents_def)
  have d: "req_agent_override (override_request ''legal'') = Some ''legal''"
    by (simp add: override_request_fields)
  from a b c d show ?thesis by blast
qed

text \<open>
  Claim C7. A turn with no session id, when the generated id is not in use, creates the
  session under that id with a message count of 1 and the selected agent as its only
  used agent, and a response, when there is one, carries that id. A second turn that
  supplies the id leaves the session with a message count of 2.
\<close>

theorem session_lifecycle:
  assumes "req_session_id request = None" and "sessions (uuid4 env) = None"
    and "uuid4 env \<noteq> []" and "req_session_id next_request = Some (uuid4 env)"
  shows "(\<exists>s. fst (snd (send_message env sessions request)) (uuid4 env) = Some s
            \<and> message_count s = 1
            \<and> agents_used s = [fst (select_agent env request)]
            \<and> set (agents_used s) = {fst (select_agent env request)})
     \<and> (\<forall>resp. fst (send_message env sessions request) = Inr resp
           \<longrightarrow> resp_session_id resp = uuid4 env
               \<and> resp_agent_used resp = fst (select_agent env request))
     \<and> (\<exists>s. fst (snd (send_message next_env (fst (snd (send_message env sessions request))) next_request))
               (uuid4 env) = Some s
            \<and> message_count s = 2)"
proof -
  let ?S1 = "fst (snd (send_message env sessions request))"
  have rs1: "resolve_session_id env request = uuid4 env"
    using assms(1) by (simp add: resolve_session_id_def truthy_def)
  have rs2: "resolve_session_id next_env next_request = uuid4 env"
    using assms(3,4) by (simp add: resolve_session_id_def truthy_def)
  obtain s where s: "?S1 (uuid4 env) = Some s"
    and mc: "message_count s = message_count (open_session env sessions (uuid4 env))"
    and au: "agents_used s = agents_used (track_agent_usage (fst (select_agent env request))
                                           (open_session env sessions (uuid4 env)))"
    using send_message_session_entry [of env sessions request] unfolding rs1 by blast
  from mc assms(2) have mc1: "message_count s = 1" by (simp add: open_session_def)
  from au assms(2) have au1: "agents_used s = [fst (select_agent env request)]"
    by (simp add: open_session_def track_agent_usage_def)
  obtain s2 where s2: "fst (snd (send_message next_env ?S1 next_request)) (uuid4 env) = Some s2"
    and mc2: "message_count s2 = message_count (open_session next_env ?S1 (uuid4 env))"
    using send_message_session_entry [of next_env ?S1 next_request] unfolding rs2 by blast
  from mc2 s mc1 have mc3: "message_count s2 = 2" by (simp add: open_session_def)
  have first: "\<exists>s. ?S1 (uuid4 env) = Some s
            \<and> message_count s = 1
            \<and> agents_used s = [fst (select_agent env request)]
            \<and> set (agents_used s) = {fst (select_agent env request)}"
    using s mc1 au1 by simp
  have resp: "\<forall>resp. fst (send_message env sessions request) = Inr resp
           \<longrightarrow> resp_session_id resp = uuid4 env
               \<and> resp_agent_used resp = fst (select_agent env request)"
    using send_message_response_fields [of env sessions request] unfolding rs1 by blast
  have second: "\<exists>s. fst (snd (send_message next_env ?S1 next_request)) (uuid4 env) = Some s
            \<and> message_count s = 2"
    using s2 mc3 by blast
  from first resp second show ?thesis by blast
qed

theorem session_lifecycle_witness:
  "req_session_id (weather_request None) = None
   \<and> Map.empty (uuid4 demo_chat_env) = (None :: session option)
   \<and> uuid4 demo_chat_env = ''3f2a9c1e''
   \<and> req_session_id (weather_request (Some ''3f2a9c1e'')) = Some (uuid4 demo_chat_env)
   \<and> fst (select_agent demo_chat_env (weather_request None)) = ''general''
   \<and> map_option message_count
        (fst (snd (send_message demo_chat_env Map.empty (weather_request None))) ''3f2a9c1e'')
       = Some 1
   \<and> map_option agents_used
        (fst (snd (send_message demo_chat_env Map.empty (weather_request None))) ''3f2a9c1e'')
       = Some [''general'']
   \<and> map_option message_count
        (fst (snd (send_message demo_chat_env
                     (fst (snd (send_message demo_chat_env Map.empty (weather_request None))))
                     (weather_request (Some ''3f2a9c1e'')))) ''3f2a9c1e'')
       = Some 2"
proof -
  have h1: "req_session_id (weather_request None) = None"
    by (simp add: weather_request_fields)
  have h2: "Map.empty (uuid4 demo_chat_env) = (None :: session option)" by simp
  have u: "uuid4 demo_chat_env = ''3f2a9c1e''" by (simp add: demo_chat_env_def)
  have h3: "uuid4 demo_chat_env \<noteq> []" by (simp add: u)
  have h4: "req_session_id (weather_request (Some ''3f2a9c1e'')) = Some (uuid4 demo_chat_env)"
    by (simp add: weather_request_fields u)
  have sel: "fst (select_agent demo_chat_env (weather_request None)) = ''general''"
    by (simp add: select_agent_def truthy_def weather_request_fields weather_is_general)
  note t = session_lifecycle
    [where request = "weather_request None" and sessions = Map.empty and env = demo_chat_env
       and next_request = "weather_request (Some ''3f2a9c1e'')" and next_env = demo_chat_env,
     OF h1 h2 h3 h4]
  from t obtain s where
    "fst (snd (send_message demo_chat_env Map.empty (weather_request None))) (uuid4 demo_chat_env)
       = Some s"
    "message_count s = 1"
    "agents_used s = [fst (select_agent demo_chat_env (weather_request None))]"
    by blast
  then have a: "map_option message_count
        (fst (snd (send_message demo_chat_env Map.empty (weather_request None))) ''3f2a9c1e'')
       = Some 1"
    and b: "map_option agents_used
        (fst (snd (send_message demo_chat_env Map.empty (weather_request None))) ''3f2a9c1e'')
       = Some [''general'']"
    by (simp_all add: u sel)
  from t obtain s2 where
    "fst (snd (send_message demo_chat_env
                 (fst (snd (send_message demo_chat_env Map.empty (weather_request None))))
                 (weather_request (Some ''3f2a9c1e'')))) (uuid4 demo_chat_env) = Some s2"
    "message_count s2 = 2"
    by blast
  then have c: "map_option message_count
        (fst (snd (send_message demo_chat_env
                     (fst (snd (send_message demo_chat_env Map.empty (weather_request None))))
                     (weather_request (Some ''3f2a9c1e'')))) ''3f2a9c1e'')
       = Some 2"
    by (simp add: u)
  from h1 h2 u h4 sel a b c show ?thesis by blast
qed

end
